theory Spec2Isabelle
  imports Complex_Main "HOL-Library.AList" "HOL-Library.List_Lexorder" "HOL-Library.Char_ord"
begin

section \<open>Python strings as used by plexapi/base.py\<close>

text \<open>
  Python \<open>str\<close> values are modelled as HOL strings. The string methods the source calls
  are written out: \<open>lower\<close> (on ASCII letters), \<open>startswith\<close>, \<open>endswith\<close>,
  \<open>split('__', 1)\<close> and \<open>rsplit('__', 1)\<close>. Names of the source that start with an
  underscore lose it here (\<open>_getAttrValue\<close> is \<open>getAttrValue\<close>), since an Isabelle
  name starts with a letter.
\<close>

definition lower_char :: "char \<Rightarrow> char" where
  "lower_char c =
     (case map_of (zip ''ABCDEFGHIJKLMNOPQRSTUVWXYZ'' ''abcdefghijklmnopqrstuvwxyz'') c of
        Some d \<Rightarrow> d
      | None \<Rightarrow> c)"

definition lower :: "string \<Rightarrow> string" where
  "lower s = map lower_char s"

definition startswith :: "string \<Rightarrow> string \<Rightarrow> bool" where
  "startswith s p = (take (length p) s = p)"

definition endswith :: "string \<Rightarrow> string \<Rightarrow> bool" where
  "endswith s p = (length p \<le> length s \<and> drop (length s - length p) s = p)"

text \<open>\<open>s.split('__', 1)\<close>: \<open>None\<close> when \<open>s\<close> has no \<open>__\<close> (Python returns the
  one-element list \<open>[s]\<close>), otherwise the text before and after the first \<open>__\<close>.\<close>

fun split_dunder :: "string \<Rightarrow> (string \<times> string) option" where
  "split_dunder (c # d # cs) =
     (if c = CHR ''_'' \<and> d = CHR ''_'' then Some ([], cs)
      else (case split_dunder (d # cs) of
              None \<Rightarrow> None
            | Some (a, b) \<Rightarrow> Some (c # a, b)))"
| "split_dunder cs = None"

text \<open>\<open>s.rsplit('__', 1)\<close>: the same split at the last \<open>__\<close>.\<close>

definition rsplit_dunder :: "string \<Rightarrow> (string \<times> string) option" where
  "rsplit_dunder s =
     (case split_dunder (rev s) of
        None \<Rightarrow> None
      | Some (b, a) \<Rightarrow> Some (rev a, rev b))"

section \<open>The attribute tree\<close>

text \<open>
  An \<open>xml.etree.ElementTree.Element\<close>: its identity (what Python's \<open>id\<close> tells apart), its
  tag, its attributes in document order and its children in document order. Attribute
  values and tags are strings.
\<close>

datatype elem = Elem (eid: nat) (tag: string) (attrib: "(string \<times> string) list") (children: "elem list")

text \<open>\<open>elem.attrib.get(name)\<close>.\<close>

definition attrib_get :: "elem \<Rightarrow> string \<Rightarrow> string option" where
  "attrib_get e k = map_of (attrib e) k"

section \<open>Value extraction: \<open>PlexObject._getAttrValue\<close>\<close>

text \<open>
  The source passes its accumulator \<open>results\<close> to the recursive call and then appends the
  call's return value to the same list (\<open>results += self._getAttrValue(child, attrstr, results)\<close>).
  The list is one shared Python object, so the model threads its contents: the function
  returns the list it returns in Python together with the contents of the list that was
  passed in (\<open>None\<close> when none was passed), as they are when the call returns.
  The comprehension \<open>[r for r in results if r is not None]\<close> copies the list; it drops
  nothing, since every entry is a tag or an attribute value of an element, a string.
\<close>

fun getAttrValue :: "elem \<Rightarrow> string \<Rightarrow> string list option \<Rightarrow> string list \<times> string list option"
  and getAttrValue_loop :: "elem list \<Rightarrow> string \<Rightarrow> string \<Rightarrow> string list \<Rightarrow> string list"
where
  "getAttrValue (Elem i t as cs) attrstr results =
     (let parts = split_dunder attrstr;
          attr = (case parts of None \<Rightarrow> attrstr | Some (a, b) \<Rightarrow> a);
          rest = (case parts of None \<Rightarrow> [] | Some (a, b) \<Rightarrow> b)
      in if rest \<noteq> [] then
           (let shared = getAttrValue_loop cs attr rest (case results of None \<Rightarrow> [] | Some r \<Rightarrow> r)
            in (shared, map_option (\<lambda>r. shared) results))
         else if lower attr = ''etag'' then ([t], results)
         else (case find (\<lambda>(k, v). lower attr = lower k) as of
                 Some (k, v) \<Rightarrow> ([v], results)
               | None \<Rightarrow> ([], results)))"
| "getAttrValue_loop [] attr rest shared = shared"
| "getAttrValue_loop (c # cs) attr rest shared =
     (if lower (tag c) = lower attr then
        (case getAttrValue c rest (Some shared) of
           (ret, Some shared') \<Rightarrow> getAttrValue_loop cs attr rest (shared' @ ret)
         | (ret, None) \<Rightarrow> getAttrValue_loop cs attr rest (shared @ ret))
      else getAttrValue_loop cs attr rest shared)"

section \<open>Python values\<close>

text \<open>
  A Python \<open>float\<close> is a rational, an infinity (\<open>FInf True\<close> is the positive one) or
  NaN; how a string is rounded to one is left to the parameter \<open>py_float\<close> below.
\<close>

datatype pyfloat = FNum rat | FInf bool | FNaN

text \<open>
  The values an attribute or a filter operand holds: \<open>None\<close>, booleans, unbounded
  integers, floats, strings, lists, dictionaries with string keys (in insertion order),
  elements of the attribute tree, and \<open>PRef\<close> for any other object, known by its
  identity only.
\<close>

datatype pyval =
    PNone
  | PBool bool
  | PInt int
  | PFloat pyfloat
  | PStr string
  | PList "pyval list"
  | PDict "(string \<times> pyval) list"
  | PElem elem
  | PRef nat

text \<open>The exceptions of the source and of the built-ins it calls. \<open>Unmodelled\<close> is no
  Python exception: it marks an operation this development does not compute (float
  arithmetic, comparison of lists, the call of the function behind a
  \<open>cached_data_property\<close>).\<close>

datatype exc =
    AttributeError
  | TypeError
  | ValueError
  | IndexError
  | ReError
  | NotImplementedError
  | BadRequest
  | NotFound
  | Unsupported
  | UnknownType
  | TransportError
  | Unmodelled

text \<open>Truthiness (\<open>bool(v)\<close>, what \<open>if v\<close>, \<open>not v\<close> and \<open>a or b\<close> test).\<close>

fun truthy :: "pyval \<Rightarrow> bool" where
  "truthy PNone = False"
| "truthy (PBool b) = b"
| "truthy (PInt i) = (i \<noteq> 0)"
| "truthy (PFloat f) = (f \<noteq> FNum 0)"
| "truthy (PStr s) = (s \<noteq> [])"
| "truthy (PList xs) = (xs \<noteq> [])"
| "truthy (PDict d) = (d \<noteq> [])"
| "truthy (PElem e) = True"
| "truthy (PRef r) = True"

text \<open>\<open>a or b\<close>.\<close>

definition py_or :: "pyval \<Rightarrow> pyval \<Rightarrow> pyval" where
  "py_or a b = (if truthy a then a else b)"

text \<open>Float comparison: NaN equals nothing and is ordered with nothing.\<close>

definition f_eq :: "pyfloat \<Rightarrow> pyfloat \<Rightarrow> bool" where
  "f_eq a b = (a \<noteq> FNaN \<and> a = b)"

fun f_lt :: "pyfloat \<Rightarrow> pyfloat \<Rightarrow> bool" where
  "f_lt (FNum x) (FNum y) = (x < y)"
| "f_lt (FNum x) (FInf p) = p"
| "f_lt (FInf p) (FNum y) = (\<not> p)"
| "f_lt (FInf p) (FInf q) = (\<not> p \<and> q)"
| "f_lt FNaN b = False"
| "f_lt a FNaN = False"

definition f_le :: "pyfloat \<Rightarrow> pyfloat \<Rightarrow> bool" where
  "f_le a b = (f_lt a b \<or> f_eq a b)"

text \<open>The number a value is, when it is one: \<open>bool\<close> is a subtype of \<open>int\<close>, and an
  integer compares with a float by its exact value.\<close>

fun num_of :: "pyval \<Rightarrow> pyfloat option" where
  "num_of (PBool b) = Some (FNum (if b then 1 else 0))"
| "num_of (PInt i) = Some (FNum (of_int i))"
| "num_of (PFloat f) = Some f"
| "num_of v = None"

section \<open>The query evaluator\<close>

subsection \<open>The operator table \<open>OPERATORS\<close>\<close>

datatype opname =
    Exact | Iexact | Contains | Icontains | Ne | In | Gt | Gte | Lt | Lte
  | Startswith | Istartswith | Endswith | Iendswith | Exists | Regex | Iregex

text \<open>The keys of \<open>OPERATORS\<close>, in the order the dictionary lists them.\<close>

definition OPERATORS :: "opname list" where
  "OPERATORS = [Exact, Iexact, Contains, Icontains, Ne, In, Gt, Gte, Lt, Lte,
     Startswith, Istartswith, Endswith, Iendswith, Exists, Regex, Iregex]"

fun op_key :: "opname \<Rightarrow> string" where
  "op_key Exact = ''exact''"
| "op_key Iexact = ''iexact''"
| "op_key Contains = ''contains''"
| "op_key Icontains = ''icontains''"
| "op_key Ne = ''ne''"
| "op_key In = ''in''"
| "op_key Gt = ''gt''"
| "op_key Gte = ''gte''"
| "op_key Lt = ''lt''"
| "op_key Lte = ''lte''"
| "op_key Startswith = ''startswith''"
| "op_key Istartswith = ''istartswith''"
| "op_key Endswith = ''endswith''"
| "op_key Iendswith = ''iendswith''"
| "op_key Exists = ''exists''"
| "op_key Regex = ''regex''"
| "op_key Iregex = ''iregex''"

text \<open>
  What \<open>_castAttrValue\<close> returns: the attribute string itself, or the boolean, integer
  or float it was coerced to.
\<close>

datatype castval = CStr string | CBool bool | CInt int | CFloat pyfloat

fun cast_num :: "castval \<Rightarrow> pyfloat option" where
  "cast_num (CStr s) = None"
| "cast_num (CBool b) = Some (FNum (if b then 1 else 0))"
| "cast_num (CInt i) = Some (FNum (of_int i))"
| "cast_num (CFloat f) = Some f"

text \<open>\<open>v == q\<close> for a coerced value \<open>v\<close>: two strings, or two numbers.\<close>

definition cv_eq :: "castval \<Rightarrow> pyval \<Rightarrow> bool" where
  "cv_eq v q =
     (case (v, q) of
        (CStr s, PStr t) \<Rightarrow> s = t
      | (CStr s, _) \<Rightarrow> False
      | _ \<Rightarrow> (case (cast_num v, num_of q) of (Some a, Some b) \<Rightarrow> f_eq a b | _ \<Rightarrow> False))"

text \<open>\<open>v < q\<close>: strings by code point, numbers by value, anything else raises.\<close>

definition cv_lt :: "castval \<Rightarrow> pyval \<Rightarrow> exc + bool" where
  "cv_lt v q =
     (case (v, q) of
        (CStr s, PStr t) \<Rightarrow> Inr (s < t)
      | (CStr s, _) \<Rightarrow> Inl TypeError
      | _ \<Rightarrow> (case (cast_num v, num_of q) of (Some a, Some b) \<Rightarrow> Inr (f_lt a b) | _ \<Rightarrow> Inl TypeError))"

definition cv_le :: "castval \<Rightarrow> pyval \<Rightarrow> exc + bool" where
  "cv_le v q =
     (case (v, q) of
        (CStr s, PStr t) \<Rightarrow> Inr (s \<le> t)
      | (CStr s, _) \<Rightarrow> Inl TypeError
      | _ \<Rightarrow> (case (cast_num v, num_of q) of (Some a, Some b) \<Rightarrow> Inr (f_le a b) | _ \<Rightarrow> Inl TypeError))"

definition cv_gt :: "castval \<Rightarrow> pyval \<Rightarrow> exc + bool" where
  "cv_gt v q =
     (case (v, q) of
        (CStr s, PStr t) \<Rightarrow> Inr (t < s)
      | (CStr s, _) \<Rightarrow> Inl TypeError
      | _ \<Rightarrow> (case (cast_num v, num_of q) of (Some a, Some b) \<Rightarrow> Inr (f_lt b a) | _ \<Rightarrow> Inl TypeError))"

definition cv_ge :: "castval \<Rightarrow> pyval \<Rightarrow> exc + bool" where
  "cv_ge v q =
     (case (v, q) of
        (CStr s, PStr t) \<Rightarrow> Inr (t \<le> s)
      | (CStr s, _) \<Rightarrow> Inl TypeError
      | _ \<Rightarrow> (case (cast_num v, num_of q) of (Some a, Some b) \<Rightarrow> Inr (f_le b a) | _ \<Rightarrow> Inl TypeError))"

text \<open>\<open>t in s\<close> on two strings.\<close>

fun str_contains :: "string \<Rightarrow> string \<Rightarrow> bool" where
  "str_contains [] t = (t = [])"
| "str_contains (c # cs) t = (startswith (c # cs) t \<or> str_contains cs t)"

text \<open>
  The Python built-ins the evaluator calls and this development does not define:
  \<open>int(s)\<close> and \<open>float(s)\<close> on a string (\<open>None\<close> stands for \<open>ValueError\<close>), and
  \<open>bool(re.search(pattern, s, flags))\<close> (the boolean says whether \<open>re.IGNORECASE\<close> is set).
\<close>

record pybuiltins =
  py_int :: "string \<Rightarrow> int option"
  py_float :: "string \<Rightarrow> pyfloat option"
  re_search :: "bool \<Rightarrow> string \<Rightarrow> string \<Rightarrow> exc + bool"

text \<open>
  \<open>OPERATORS[op](v, q)\<close>. The first argument is a coerced attribute value, so it is
  never \<open>None\<close>: \<open>exists\<close> answers with the truth value of its operand. A method
  that the value's type lacks raises \<open>AttributeError\<close>, an operand of the wrong type
  \<open>TypeError\<close>.
\<close>

fun operator :: "pybuiltins \<Rightarrow> opname \<Rightarrow> castval \<Rightarrow> pyval \<Rightarrow> exc + bool" where
  "operator B Exact v q = Inr (cv_eq v q)"
| "operator B Iexact v q =
     (case (v, q) of (CStr s, PStr t) \<Rightarrow> Inr (lower s = lower t) | _ \<Rightarrow> Inl AttributeError)"
| "operator B Contains v q =
     (case (v, q) of (CStr s, PStr t) \<Rightarrow> Inr (str_contains s t) | _ \<Rightarrow> Inl TypeError)"
| "operator B Icontains v q =
     (case (v, q) of (CStr s, PStr t) \<Rightarrow> Inr (str_contains (lower s) (lower t)) | _ \<Rightarrow> Inl AttributeError)"
| "operator B Ne v q = Inr (\<not> cv_eq v q)"
| "operator B In v q =
     (case q of
        PStr t \<Rightarrow> (case v of CStr s \<Rightarrow> Inr (str_contains t s) | _ \<Rightarrow> Inl TypeError)
      | PList xs \<Rightarrow> Inr (list_ex (cv_eq v) xs)
      | PDict d \<Rightarrow> (case v of CStr s \<Rightarrow> Inr (s \<in> fst ` set d) | _ \<Rightarrow> Inr False)
      | PElem e \<Rightarrow> Inr False
      | _ \<Rightarrow> Inl TypeError)"
| "operator B Gt v q = cv_gt v q"
| "operator B Gte v q = cv_ge v q"
| "operator B Lt v q = cv_lt v q"
| "operator B Lte v q = cv_le v q"
| "operator B Startswith v q =
     (case (v, q) of
        (CStr s, PStr t) \<Rightarrow> Inr (startswith s t)
      | (CStr s, _) \<Rightarrow> Inl TypeError
      | _ \<Rightarrow> Inl AttributeError)"
| "operator B Istartswith v q =
     (case (v, q) of (CStr s, PStr t) \<Rightarrow> Inr (startswith (lower s) (lower t)) | _ \<Rightarrow> Inl AttributeError)"
| "operator B Endswith v q =
     (case (v, q) of
        (CStr s, PStr t) \<Rightarrow> Inr (endswith s t)
      | (CStr s, _) \<Rightarrow> Inl TypeError
      | _ \<Rightarrow> Inl AttributeError)"
| "operator B Iendswith v q =
     (case (v, q) of (CStr s, PStr t) \<Rightarrow> Inr (endswith (lower s) (lower t)) | _ \<Rightarrow> Inl AttributeError)"
| "operator B Exists v q = Inr (truthy q)"
| "operator B Regex v q =
     (case (v, q) of (CStr s, PStr t) \<Rightarrow> re_search B False t s | _ \<Rightarrow> Inl TypeError)"
| "operator B Iregex v q =
     (case (v, q) of (CStr s, PStr t) \<Rightarrow> re_search B True t s | _ \<Rightarrow> Inl TypeError)"

subsection \<open>\<open>_getAttrOperator\<close> and \<open>_castAttrValue\<close>\<close>

definition getAttrOperator :: "string \<Rightarrow> string \<times> opname" where
  "getAttrOperator attr =
     (case find (\<lambda>op. endswith attr (''__'' @ op_key op)) OPERATORS of
        Some op \<Rightarrow> ((case rsplit_dunder attr of Some (a, b) \<Rightarrow> a | None \<Rightarrow> attr), op)
      | None \<Rightarrow> (attr, Exact))"

definition castAttrValue :: "pybuiltins \<Rightarrow> opname \<Rightarrow> pyval \<Rightarrow> string \<Rightarrow> exc + castval" where
  "castAttrValue B op query v =
     (if op = Exists then Inr (CStr v)
      else (case query of
              PBool b \<Rightarrow> (case py_int B v of None \<Rightarrow> Inl ValueError | Some i \<Rightarrow> Inr (CBool (i \<noteq> 0)))
            | PInt n \<Rightarrow>
                (if CHR ''.'' \<in> set v
                 then (case py_float B v of None \<Rightarrow> Inl ValueError | Some f \<Rightarrow> Inr (CFloat f))
                 else (case py_int B v of None \<Rightarrow> Inl ValueError | Some i \<Rightarrow> Inr (CInt i)))
            | PFloat x \<Rightarrow> (case py_float B v of None \<Rightarrow> Inl ValueError | Some f \<Rightarrow> Inr (CFloat f))
            | _ \<Rightarrow> Inr (CStr v)))"

subsection \<open>\<open>_checkAttrs\<close>\<close>

text \<open>\<open>query in (None, 0, '')\<close>: the tuple's members are compared with \<open>==\<close>, so
  \<open>False\<close> and \<open>0.0\<close> are in it as \<open>0\<close> is.\<close>

definition in_none_zero_empty :: "pyval \<Rightarrow> bool" where
  "in_none_zero_empty q =
     (q = PNone \<or> (case num_of q of Some f \<Rightarrow> f_eq f (FNum 0) | None \<Rightarrow> False) \<or> q = PStr [])"

text \<open>The inner loop over the extracted values: whether one of them satisfies the
  operator (the loop stops at the first that does), or the exception a coercion or the
  operator raised on the way.\<close>

fun checkAttrs_values :: "pybuiltins \<Rightarrow> opname \<Rightarrow> pyval \<Rightarrow> string list \<Rightarrow> exc + bool" where
  "checkAttrs_values B op query [] = Inr False"
| "checkAttrs_values B op query (x # xs) =
     (case castAttrValue B op query x of
        Inl e \<Rightarrow> Inl e
      | Inr v \<Rightarrow>
          (case operator B op v query of
             Inl e \<Rightarrow> Inl e
           | Inr True \<Rightarrow> Inr True
           | Inr False \<Rightarrow> checkAttrs_values B op query xs))"

text \<open>The loop over \<open>kwargs.items()\<close>; \<open>attrsFound\<close> is the dictionary of the source,
  keyed by the attribute path with the operator suffix removed.\<close>

fun checkAttrs_loop ::
  "pybuiltins \<Rightarrow> elem \<Rightarrow> (string \<times> pyval) list \<Rightarrow> (string \<times> bool) list \<Rightarrow> exc + bool" where
  "checkAttrs_loop B e [] attrsFound = Inr (list_all snd attrsFound)"
| "checkAttrs_loop B e ((k, query) # kwargs) attrsFound =
     (let (attr, op) = getAttrOperator k;
          vals = fst (getAttrValue e attr None)
      in if op = Exact \<and> vals = [] \<and> in_none_zero_empty query then Inr True
         else (case checkAttrs_values B op query vals of
                 Inl ex \<Rightarrow> Inl ex
               | Inr found \<Rightarrow> checkAttrs_loop B e kwargs (AList.update attr found attrsFound)))"

definition checkAttrs :: "pybuiltins \<Rightarrow> elem \<Rightarrow> (string \<times> pyval) list \<Rightarrow> exc + bool" where
  "checkAttrs B e kwargs = checkAttrs_loop B e kwargs []"

section \<open>Objects\<close>

text \<open>
  A class of the object model, as far as \<open>base.py\<close> looks at it: its class attributes
  that are plain values (\<open>TAG\<close>, \<open>TYPE\<close>, \<open>key\<close>, \<open>_INCLUDES\<close>, \<open>_EXCLUDES\<close>), whether
  it derives from \<open>PlexPartialObject\<close>, whether it derives from \<open>PlexSession\<close> or
  \<open>PlexHistory\<close>, the names in its \<open>_cached_data_properties\<close>, and its \<open>_loadData\<close>.

  \<open>_loadData\<close> is abstract in \<open>base.py\<close> and overridden by every concrete class; the
  overrides other than \<open>MediaContainer._loadData\<close> are in other modules. It is taken
  as the sequence of assignments \<open>self.name = value\<close> the routine performs for an
  element, each of which goes through \<open>__setattr__\<close>.
\<close>

record pycls =
  cls_attrs :: "string \<Rightarrow> pyval option"
  is_partial :: bool
  is_session_or_history :: bool
  cached_data_properties :: "string list"
  loadData :: "elem \<Rightarrow> (string \<times> pyval) list"

text \<open>An instance: its \<open>__dict__\<close> and its class.\<close>

record pyobj =
  py_dict :: "string \<Rightarrow> pyval option"
  py_class :: pycls

text \<open>
  \<open>object.__getattribute__(self, attr)\<close>: the instance dictionary, then the class. The
  instance dictionary is where \<open>PlexObject.__setattr__\<close> stores and where
  \<open>functools.cached_property\<close> memoizes the value of a \<open>cached_data_property\<close>. A
  \<open>cached_data_property\<close> of the class that the dictionary does not hold (never read, or
  deleted by \<open>_invalidateCachedProperties\<close>) is a descriptor: reading it calls the
  function behind it and memoizes the result. These functions are method bodies, for
  most classes in other modules, and not values of this model: such a read is the
  outcome \<open>Unmodelled\<close>, and no theorem below says what it returns. Of the other names the
  class attributes that are plain values are read from \<open>cls_attrs\<close>, and a name the
  class does not have is \<open>AttributeError\<close>. Methods and plain properties are not
  attributes of this model; the one property the definitions below read, \<open>_searchType\<close>,
  is unfolded where it is read.
\<close>

definition object_getattribute :: "pyobj \<Rightarrow> string \<Rightarrow> exc + pyval" where
  "object_getattribute ob attr =
     (case py_dict ob attr of
        Some v \<Rightarrow> Inr v
      | None \<Rightarrow>
          if attr \<in> set (cached_data_properties (py_class ob)) then Inl Unmodelled
          else (case cls_attrs (py_class ob) attr of Some v \<Rightarrow> Inr v | None \<Rightarrow> Inl AttributeError))"

text \<open>\<open>PlexObject.__setattr__\<close>.\<close>

definition setattr :: "pyobj \<Rightarrow> string \<Rightarrow> pyval \<Rightarrow> pyobj" where
  "setattr ob attr v =
     (let overwriteNone = (case py_dict ob ''_overwriteNone'' of Some f \<Rightarrow> f | None \<Rightarrow> PNone)
      in if v \<noteq> PNone \<or> startswith attr ''_'' \<or> py_dict ob attr = None \<or> truthy overwriteNone
         then ob\<lparr>py_dict := (py_dict ob)(attr \<mapsto> v)\<rparr>
         else ob)"

text \<open>Sequencing of computations that may raise.\<close>

definition ebind :: "exc + 'a \<Rightarrow> ('a \<Rightarrow> exc + 'b) \<Rightarrow> exc + 'b" where
  "ebind m f = (case m of Inl e \<Rightarrow> Inl e | Inr x \<Rightarrow> f x)"

subsection \<open>The environment\<close>

text \<open>A call of the transport, \<open>self._server.query(key, headers=..., params=...)\<close>.\<close>

record request =
  req_key :: pyval
  req_headers :: "(string \<times> string) list"
  req_params :: pyval

text \<open>
  What \<open>base.py\<close> imports and this development does not define. The transport answers a
  request with an element or raises; its answer may depend on the requests made before.
  \<open>urlparse\<close> gives the path and the query component of its argument, \<open>parse_qsl\<close> the
  pairs of a query component; their types are left open. \<open>utils_cast_int\<close> is
  \<open>utils.cast(int, \<cdot>)\<close>, taken to return an integer or \<open>None\<close>. \<open>getPlexObject\<close> is the
  registry lookup \<open>utils.getPlexObject(ehash, default)\<close>, \<open>searchType\<close> is
  \<open>utils.searchType\<close>, \<open>sectionByID\<close> is \<open>self._server.library.sectionByID\<close>, and
  \<open>section_edit\<close> is the library section's \<open>_edit\<close>, the edit sink: it answers a call
  (the section and the keyword arguments) by raising or not. \<open>fresh_eid\<close> is the
  identity of the element \<open>fetchItems\<close> creates with \<open>Element('MediaContainer')\<close>.
\<close>

record ('p, 'q, 'kv) env =
  query :: "request list \<Rightarrow> request \<Rightarrow> exc + elem"
  urlparse :: "pyval \<Rightarrow> exc + 'p \<times> 'q"
  parse_qsl :: "'q \<Rightarrow> 'kv list"
  urlencode :: "(string \<times> pyval) list \<Rightarrow> string"
  builtins :: pybuiltins
  USER_DONT_RELOAD_FOR_KEYS :: "string set"
  autoreload :: bool
  utils_cast_int :: "string option \<Rightarrow> int option"
  getPlexObject :: "string \<Rightarrow> string \<Rightarrow> pycls option"
  X_PLEX_CONTAINER_SIZE :: int
  searchType :: "pyval \<Rightarrow> exc + pyval"
  sectionByID :: "pyval \<Rightarrow> exc + pyval"
  section_edit :: "pyval \<Rightarrow> (string \<times> pyval) list \<Rightarrow> exc option"
  fresh_eid :: nat

definition DONT_RELOAD_FOR_KEYS :: "string set" where
  "DONT_RELOAD_FOR_KEYS = {''key'', ''sourceURI''}"

subsection \<open>\<open>_buildDetailsKey\<close> and \<open>__init__\<close>\<close>

text \<open>\<open>value not in [False, 0, '0']\<close> negated: the members are compared with \<open>==\<close>.\<close>

definition in_false_zero_str0 :: "pyval \<Rightarrow> bool" where
  "in_false_zero_str0 v =
     ((case num_of v of Some f \<Rightarrow> f_eq f (FNum 0) | None \<Rightarrow> False) \<or> v = PStr ''0'')"

text \<open>\<open>1 if value is True else value\<close>.\<close>

definition one_if_True :: "pyval \<Rightarrow> pyval" where
  "one_if_True v = (if v = PBool True then PInt 1 else v)"

text \<open>\<open>kwargs.pop(k, default)\<close>, the value it returns.\<close>

definition kwargs_pop :: "(string \<times> pyval) list \<Rightarrow> string \<Rightarrow> pyval \<Rightarrow> pyval" where
  "kwargs_pop kwargs k d = (case map_of kwargs k of Some v \<Rightarrow> v | None \<Rightarrow> d)"

text \<open>The two loops of \<open>_buildDetailsKey\<close>, over \<open>_INCLUDES.items()\<close> and over
  \<open>_EXCLUDES.items()\<close>.\<close>

definition include_params ::
  "(string \<times> pyval) list \<Rightarrow> (string \<times> pyval) list \<Rightarrow> (string \<times> pyval) list \<Rightarrow> (string \<times> pyval) list" where
  "include_params kwargs includes params =
     fold (\<lambda>(k, v) ps.
             let w = kwargs_pop kwargs k v
             in if \<not> in_false_zero_str0 w then AList.update k (one_if_True w) ps else ps)
          includes params"

definition exclude_params ::
  "(string \<times> pyval) list \<Rightarrow> (string \<times> pyval) list \<Rightarrow> (string \<times> pyval) list \<Rightarrow> (string \<times> pyval) list" where
  "exclude_params kwargs excludes params =
     fold (\<lambda>(k, v) ps.
             let w = kwargs_pop kwargs k PNone
             in if w \<noteq> PNone then AList.update k (one_if_True w) ps else ps)
          excludes params"

text \<open>\<open>self._INCLUDES.items()\<close> when \<open>hasattr(self, '_INCLUDES')\<close>, and no pairs otherwise;
  a table that is no dictionary has no \<open>items\<close>.\<close>

definition table_items :: "pyobj \<Rightarrow> string \<Rightarrow> exc + (string \<times> pyval) list" where
  "table_items ob name =
     (case object_getattribute ob name of
        Inl e \<Rightarrow> Inr []
      | Inr (PDict d) \<Rightarrow> Inr d
      | Inr v \<Rightarrow> Inl AttributeError)"

definition buildDetailsKey ::
  "('p, 'q, 'kv) env \<Rightarrow> pyobj \<Rightarrow> (string \<times> pyval) list \<Rightarrow> exc + pyval" where
  "buildDetailsKey E ob kwargs =
     ebind (object_getattribute ob ''key'') (\<lambda>details_key.
     ebind (if truthy details_key then table_items ob ''_INCLUDES'' else Inr []) (\<lambda>includes.
     ebind (if truthy details_key then table_items ob ''_EXCLUDES'' else Inr []) (\<lambda>excludes.
       let params = exclude_params kwargs excludes (include_params kwargs includes [])
       in if params \<noteq> [] then
            (case details_key of
               PStr s \<Rightarrow> Inr (PStr (s @ ''?'' @ urlencode E (sort_key fst params)))
             | _ \<Rightarrow> Inl TypeError)
          else Inr details_key)))"

text \<open>The loop a \<open>_loadData\<close> amounts to: its assignments, in order.\<close>

definition run_loadData :: "pyobj \<Rightarrow> elem \<Rightarrow> pyobj" where
  "run_loadData ob data = fold (\<lambda>(a, v) o'. setattr o' a v) (loadData (py_class ob) data) ob"

text \<open>
  \<open>PlexObject.__init__(self, server, data, initpath, parent)\<close> on a fresh instance of
  class \<open>c\<close>. \<open>server\<close> is the server handle, \<open>parent\<close> what \<open>self._parent\<close> is set to
  (\<open>None\<close> or the weak reference to the parent).
\<close>

definition PlexObject_init ::
  "('p, 'q, 'kv) env \<Rightarrow> pycls \<Rightarrow> pyval \<Rightarrow> elem option \<Rightarrow> pyval \<Rightarrow> pyval \<Rightarrow> exc + pyobj" where
  "PlexObject_init E c server data initpath parent =
     (let o0 = \<lparr>py_dict = Map.empty, py_class = c\<rparr>;
          o1 = setattr o0 ''_server'' server;
          o2 = setattr o1 ''_data'' (case data of None \<Rightarrow> PNone | Some d \<Rightarrow> PElem d)
      in ebind (if truthy initpath then Inr initpath else object_getattribute o2 ''key'') (\<lambda>ip.
         let o3 = setattr o2 ''_initpath'' ip;
             o4 = setattr o3 ''_parent'' parent;
             o5 = setattr o4 ''_details_key'' PNone;
             o6 = setattr o5 ''_overwriteNone'' (PBool True);
             o7 = setattr o6 ''_autoReload'' (PBool (autoreload E));
             o8 = setattr o7 ''_edits'' PNone;
             o9 = (case data of None \<Rightarrow> o8 | Some d \<Rightarrow> run_loadData o8 d)
         in ebind (buildDetailsKey E o9 []) (\<lambda>dk. Inr (setattr o9 ''_details_key'' dk))))"

subsection \<open>The class attributes of \<open>PlexObject\<close> and \<open>PlexPartialObject\<close>\<close>

definition PlexPartialObject_INCLUDES :: "(string \<times> pyval) list" where
  "PlexPartialObject_INCLUDES =
     [(''checkFiles'', PInt 0),
      (''includeAllConcerts'', PInt 0),
      (''includeBandwidths'', PInt 1),
      (''includeChapters'', PInt 1),
      (''includeChildren'', PInt 0),
      (''includeConcerts'', PInt 0),
      (''includeExternalMedia'', PInt 0),
      (''includeExtras'', PInt 0),
      (''includeFields'', PStr ''thumbBlurHash,artBlurHash''),
      (''includeGeolocation'', PInt 1),
      (''includeLoudnessRamps'', PInt 1),
      (''includeMarkers'', PInt 1),
      (''includeOnDeck'', PInt 0),
      (''includePopularLeaves'', PInt 0),
      (''includePreferences'', PInt 0),
      (''includeRelated'', PInt 0),
      (''includeRelatedCount'', PInt 0),
      (''includeReviews'', PInt 0),
      (''includeStations'', PInt 0)]"

definition PlexPartialObject_EXCLUDES :: "(string \<times> pyval) list" where
  "PlexPartialObject_EXCLUDES =
     [(''excludeElements'',
       PStr ''Media,Genre,Country,Guid,Rating,Collection,Director,Writer,Role,Producer,Similar,Style,Mood,Format''),
      (''excludeFields'', PStr ''summary,tagline''),
      (''skipRefresh'', PInt 1)]"

definition PlexObject_attrs :: "string \<Rightarrow> pyval option" where
  "PlexObject_attrs = [''TAG'' \<mapsto> PNone, ''TYPE'' \<mapsto> PNone, ''key'' \<mapsto> PNone]"

definition PlexPartialObject_attrs :: "string \<Rightarrow> pyval option" where
  "PlexPartialObject_attrs =
     PlexObject_attrs(''_INCLUDES'' \<mapsto> PDict PlexPartialObject_INCLUDES,
                      ''_EXCLUDES'' \<mapsto> PDict PlexPartialObject_EXCLUDES)"

text \<open>
  \<open>PlexObjectMeta.__new__\<close>: the \<open>_cached_data_properties\<close> of a new class, from those of
  its bases (\<open>None\<close> for a base without the attribute) and from its own attributes, each
  given with whether its value is a \<open>cached_data_property\<close>.
\<close>

definition PlexObjectMeta_new :: "string list option list \<Rightarrow> (string \<times> bool) list \<Rightarrow> string list" where
  "PlexObjectMeta_new bases attrs =
     fold (\<lambda>(attr_name, is_cached) props. if is_cached then List.insert attr_name props else props)
          attrs
          (fold (\<lambda>base props. case base of None \<Rightarrow> props | Some ps \<Rightarrow> fold List.insert ps props)
                bases [])"

subsection \<open>Cache invalidation\<close>

text \<open>What \<open>id\<close> tells apart: \<open>None\<close>, an element (by its identity), anything else.\<close>

datatype pyid = IdNone | IdElem nat | IdOther pyval

fun py_id :: "pyval \<Rightarrow> pyid" where
  "py_id PNone = IdNone"
| "py_id (PElem e) = IdElem (eid e)"
| "py_id v = IdOther v"

definition invalidateCachedProperties :: "pyobj \<Rightarrow> pyobj" where
  "invalidateCachedProperties ob =
     fold (\<lambda>prop_name o'.
             if py_dict o' prop_name \<noteq> None
             then o'\<lparr>py_dict := (py_dict o')(prop_name := None)\<rparr>
             else o')
          (cached_data_properties (py_class ob)) ob"

text \<open>\<open>id(getattr(self, '_data', None))\<close>.\<close>

definition data_id :: "pyobj \<Rightarrow> pyid" where
  "data_id ob = (case object_getattribute ob ''_data'' of Inl e \<Rightarrow> IdNone | Inr v \<Rightarrow> py_id v)"

definition invalidateCacheAndLoadData :: "pyobj \<Rightarrow> elem \<Rightarrow> pyobj" where
  "invalidateCacheAndLoadData ob data =
     (let old_data_id = data_id ob;
          o1 = setattr ob ''_data'' (PElem data);
          o2 = (if IdElem (eid data) \<noteq> old_data_id then invalidateCachedProperties o1 else o1)
      in run_loadData o2 data)"

subsection \<open>Partial and full objects\<close>

text \<open>\<open>PlexPartialObject.isFullObject\<close>. Its attribute reads are of \<open>_details_key\<close>,
  \<open>_initpath\<close> and \<open>key\<close>, which \<open>__getattribute__\<close> returns as they are.\<close>

definition isFullObject :: "('p, 'q, 'kv) env \<Rightarrow> pyobj \<Rightarrow> exc + bool" where
  "isFullObject E ob =
     ebind (object_getattribute ob ''_details_key'') (\<lambda>dk.
     ebind (if truthy dk then Inr dk else object_getattribute ob ''key'') (\<lambda>k.
     ebind (urlparse E k) (\<lambda>parsed_key.
     ebind (object_getattribute ob ''_initpath'') (\<lambda>ip.
     ebind (urlparse E ip) (\<lambda>parsed_initpath.
     ebind (object_getattribute ob ''key'') (\<lambda>key.
       let query_key = set (parse_qsl E (snd parsed_key));
           query_init = set (parse_qsl E (snd parsed_initpath))
       in Inr (\<not> truthy key \<or> (fst parsed_key = fst parsed_initpath \<and> query_key \<subseteq> query_init))))))))"

subsection \<open>Reload\<close>

text \<open>
  The state a method call works on: the object, the requests the transport has received
  so far, and the calls the edit sink has received so far (the section and the keyword
  arguments of each).
\<close>

record state =
  st_obj :: pyobj
  st_requests :: "request list"
  st_edits :: "(pyval \<times> (string \<times> pyval) list) list"

text \<open>\<open>PlexObject._reload(self, key, _overwriteNone, **kwargs)\<close>. An exception leaves the
  state as it is where it was raised.\<close>

definition reload ::
  "('p, 'q, 'kv) env \<Rightarrow> pyval \<Rightarrow> bool \<Rightarrow> (string \<times> pyval) list \<Rightarrow> state \<Rightarrow> (exc + unit) \<times> state" where
  "reload E key overwriteNone kwargs st =
     (let ob = st_obj st in
      case (if kwargs \<noteq> [] then buildDetailsKey E ob kwargs
            else object_getattribute ob ''_details_key'') of
        Inl e \<Rightarrow> (Inl e, st)
      | Inr details_key \<Rightarrow>
          (case (if truthy key then Inr key
                 else if truthy details_key then Inr details_key
                 else object_getattribute ob ''key'') of
             Inl e \<Rightarrow> (Inl e, st)
           | Inr k \<Rightarrow>
               if \<not> truthy k then (Inl Unsupported, st)
               else
                 (let o1 = setattr ob ''_initpath'' k;
                      req = \<lparr>req_key = k, req_headers = [], req_params = PNone\<rparr>;
                      st1 = st\<lparr>st_obj := o1, st_requests := st_requests st @ [req]\<rparr>
                  in case query E (st_requests st) req of
                       Inl e \<Rightarrow> (Inl e, st1)
                     | Inr data \<Rightarrow>
                         (let o2 = setattr o1 ''_overwriteNone'' (PBool overwriteNone)
                          in case children data of
                               [] \<Rightarrow> (Inl IndexError, st1\<lparr>st_obj := o2\<rparr>)
                             | d # ds \<Rightarrow>
                                 (let o3 = invalidateCacheAndLoadData o2 d;
                                      o4 = setattr o3 ''_overwriteNone'' (PBool True)
                                  in (Inr (), st1\<lparr>st_obj := o4\<rparr>))))))"

subsection \<open>Attribute access on a partial object\<close>

text \<open>The last two lines of \<open>PlexPartialObject.__getattribute__\<close>:
  \<open>self._reload(_overwriteNone=False)\<close> and the second read of the attribute.\<close>

definition reload_and_read ::
  "('p, 'q, 'kv) env \<Rightarrow> string \<Rightarrow> state \<Rightarrow> (exc + pyval) \<times> state" where
  "reload_and_read E attr st =
     (case reload E PNone False [] st of
        (Inl e, st') \<Rightarrow> (Inl e, st')
      | (Inr u, st') \<Rightarrow> (object_getattribute (st_obj st') attr, st'))"

text \<open>\<open>PlexPartialObject.__getattribute__\<close>. The lines between the last check and the
  reload only build a log message.\<close>

definition getattribute ::
  "('p, 'q, 'kv) env \<Rightarrow> string \<Rightarrow> state \<Rightarrow> (exc + pyval) \<times> state" where
  "getattribute E attr st =
     (case object_getattribute (st_obj st) attr of
        Inl e \<Rightarrow> (Inl e, st)
      | Inr v \<Rightarrow>
          if attr \<in> DONT_RELOAD_FOR_KEYS then (Inr v, st)
          else if attr \<in> USER_DONT_RELOAD_FOR_KEYS E then (Inr v, st)
          else if startswith attr ''_'' then (Inr v, st)
          else if \<not> (v = PNone \<or> v = PList []) then (Inr v, st)
          else (case isFullObject E (st_obj st) of
                  Inl e \<Rightarrow> (Inl e, st)
                | Inr True \<Rightarrow> (Inr v, st)
                | Inr False \<Rightarrow>
                    if is_session_or_history (py_class (st_obj st)) then (Inr v, st)
                    else (case object_getattribute (st_obj st) ''_autoReload'' of
                            Inl e \<Rightarrow> (Inl e, st)
                          | Inr ar \<Rightarrow>
                              if ar = PBool False then (Inr v, st)
                              else reload_and_read E attr st)))"

section \<open>Editing\<close>

text \<open>\<open>d.update(kwargs)\<close>.\<close>

definition dict_update :: "(string \<times> pyval) list \<Rightarrow> (string \<times> pyval) list \<Rightarrow> (string \<times> pyval) list" where
  "dict_update d kwargs = fold (\<lambda>(k, v). AList.update k v) kwargs d"

definition batchEdits :: "state \<Rightarrow> state" where
  "batchEdits st = st\<lparr>st_obj := setattr (st_obj st) ''_edits'' (PDict [])\<rparr>"

text \<open>
  \<open>PlexPartialObject._edit(self, **kwargs)\<close>. In batch mode the dictionary held by
  \<open>_edits\<close> is updated in place. Otherwise \<open>self._searchType\<close> reads \<open>self.TYPE\<close> and
  \<open>self.section()\<close> reads \<open>self.librarySectionID\<close>, both through \<open>__getattribute__\<close>;
  the call \<open>_edit(items=self, **kwargs)\<close> is a \<open>TypeError\<close> when \<open>kwargs\<close> has a key
  \<open>items\<close>.
\<close>

text \<open>The default for \<open>type\<close>: \<open>if 'type' not in kwargs: kwargs['type'] =
  utils.searchType(self._searchType)\<close>, where the property \<open>_searchType\<close> reads
  \<open>self.TYPE\<close>.\<close>

definition with_type ::
  "('p, 'q, 'kv) env \<Rightarrow> (string \<times> pyval) list \<Rightarrow> state \<Rightarrow> (exc + (string \<times> pyval) list) \<times> state" where
  "with_type E kwargs st =
     (if ''type'' \<in> fst ` set kwargs then (Inr kwargs, st)
      else (case getattribute E ''TYPE'' st of
              (Inl e, st1) \<Rightarrow> (Inl e, st1)
            | (Inr t, st1) \<Rightarrow>
                (case searchType E t of
                   Inl e \<Rightarrow> (Inl e, st1)
                 | Inr ty \<Rightarrow> (Inr (AList.update ''type'' ty kwargs), st1))))"

definition edit ::
  "('p, 'q, 'kv) env \<Rightarrow> (string \<times> pyval) list \<Rightarrow> state \<Rightarrow> (exc + unit) \<times> state" where
  "edit E kwargs st =
     (case object_getattribute (st_obj st) ''_edits'' of
        Inl e \<Rightarrow> (Inl e, st)
      | Inr (PDict d) \<Rightarrow>
          (Inr (), st\<lparr>st_obj := (st_obj st)\<lparr>py_dict := (py_dict (st_obj st))(''_edits'' \<mapsto> PDict (dict_update d kwargs))\<rparr>\<rparr>)
      | Inr other \<Rightarrow>
          (case with_type E kwargs st of
             (Inl e, st1) \<Rightarrow> (Inl e, st1)
           | (Inr kwargs1, st1) \<Rightarrow>
               (case getattribute E ''librarySectionID'' st1 of
                  (Inl e, st2) \<Rightarrow> (Inl e, st2)
                | (Inr lsid, st2) \<Rightarrow>
                    (case sectionByID E lsid of
                       Inl e \<Rightarrow> (Inl e, st2)
                     | Inr sec \<Rightarrow>
                         if ''items'' \<in> fst ` set kwargs1 then (Inl TypeError, st2)
                         else
                           (let st3 = st2\<lparr>st_edits := st_edits st2 @ [(sec, kwargs1)]\<rparr>
                            in case section_edit E sec kwargs1 of
                                 Some e \<Rightarrow> (Inl e, st3)
                               | None \<Rightarrow> (Inr (), st3))))))"

definition saveEdits :: "('p, 'q, 'kv) env \<Rightarrow> state \<Rightarrow> (exc + unit) \<times> state" where
  "saveEdits E st =
     (case object_getattribute (st_obj st) ''_edits'' of
        Inl e \<Rightarrow> (Inl e, st)
      | Inr (PDict edits) \<Rightarrow> edit E edits (st\<lparr>st_obj := setattr (st_obj st) ''_edits'' PNone\<rparr>)
      | Inr other \<Rightarrow> (Inl BadRequest, st))"

text \<open>A run of \<open>edit\<close> calls, stopping at the first that raises.\<close>

fun edits :: "('p, 'q, 'kv) env \<Rightarrow> (string \<times> pyval) list list \<Rightarrow> state \<Rightarrow> (exc + unit) \<times> state" where
  "edits E [] st = (Inr (), st)"
| "edits E (kw # kws) st =
     (case edit E kw st of
        (Inl e, st1) \<Rightarrow> (Inl e, st1)
      | (Inr u, st1) \<Rightarrow> edits E kws st1)"

section \<open>Containers\<close>

definition opt_int :: "int option \<Rightarrow> pyval" where
  "opt_int x = (case x of None \<Rightarrow> PNone | Some i \<Rightarrow> PInt i)"

definition opt_str :: "string option \<Rightarrow> pyval" where
  "opt_str x = (case x of None \<Rightarrow> PNone | Some s \<Rightarrow> PStr s)"

text \<open>\<open>MediaContainer._loadData\<close>.\<close>

definition MediaContainer_loadData :: "('p, 'q, 'kv) env \<Rightarrow> elem \<Rightarrow> (string \<times> pyval) list" where
  "MediaContainer_loadData E data =
     [(''allowSync'', opt_int (utils_cast_int E (attrib_get data ''allowSync''))),
      (''augmentationKey'', opt_str (attrib_get data ''augmentationKey'')),
      (''identifier'', opt_str (attrib_get data ''identifier'')),
      (''librarySectionID'', opt_int (utils_cast_int E (attrib_get data ''librarySectionID''))),
      (''librarySectionTitle'', opt_str (attrib_get data ''librarySectionTitle'')),
      (''librarySectionUUID'', opt_str (attrib_get data ''librarySectionUUID'')),
      (''mediaTagPrefix'', opt_str (attrib_get data ''mediaTagPrefix'')),
      (''mediaTagVersion'', opt_str (attrib_get data ''mediaTagVersion'')),
      (''offset'', opt_int (utils_cast_int E (attrib_get data ''offset''))),
      (''size'', opt_int (utils_cast_int E (attrib_get data ''size''))),
      (''totalSize'', opt_int (utils_cast_int E (attrib_get data ''totalSize'')))]"

text \<open>The class \<open>MediaContainer\<close>: \<open>TAG\<close> is its own, \<open>TYPE\<close> and \<open>key\<close> are those of
  \<open>PlexObject\<close>.\<close>

definition MediaContainer_class :: "('p, 'q, 'kv) env \<Rightarrow> pycls" where
  "MediaContainer_class E =
     \<lparr>cls_attrs = [''TAG'' \<mapsto> PStr ''MediaContainer'', ''TYPE'' \<mapsto> PNone, ''key'' \<mapsto> PNone],
      is_partial = False,
      is_session_or_history = False,
      cached_data_properties = [],
      loadData = MediaContainer_loadData E\<rparr>"

text \<open>A \<open>MediaContainer\<close> is a list and a \<open>PlexObject\<close>: its items and its attributes.\<close>

record container =
  c_obj :: pyobj
  c_items :: "pyobj list"

definition MediaContainer_init ::
  "('p, 'q, 'kv) env \<Rightarrow> pyval \<Rightarrow> elem \<Rightarrow> pyobj list \<Rightarrow> pyval \<Rightarrow> pyval \<Rightarrow> exc + container" where
  "MediaContainer_init E server data args initpath parent =
     ebind (PlexObject_init E (MediaContainer_class E) server (Some data) initpath parent)
       (\<lambda>ob. Inr \<lparr>c_obj = ob, c_items = args\<rparr>)"

text \<open>The argument of \<open>extend\<close>: a plain list, or another \<open>MediaContainer\<close>.\<close>

datatype items_arg = Plain "pyobj list" | Container container

fun items_of :: "items_arg \<Rightarrow> pyobj list" where
  "items_of (Plain xs) = xs"
| "items_of (Container c) = c_items c"

text \<open>\<open>a + b\<close> and \<open>min(a, b)\<close> on the values a container's counters hold.\<close>

fun int_of :: "pyval \<Rightarrow> int option" where
  "int_of (PInt i) = Some i"
| "int_of (PBool b) = Some (if b then 1 else 0)"
| "int_of v = None"

definition py_add :: "pyval \<Rightarrow> pyval \<Rightarrow> exc + pyval" where
  "py_add a b =
     (case (int_of a, int_of b) of
        (Some x, Some y) \<Rightarrow> Inr (PInt (x + y))
      | _ \<Rightarrow> (case (a, b) of
                (PStr s, PStr t) \<Rightarrow> Inr (PStr (s @ t))
              | (PList xs, PList ys) \<Rightarrow> Inr (PList (xs @ ys))
              | _ \<Rightarrow> (if num_of a \<noteq> None \<and> num_of b \<noteq> None then Inl Unmodelled else Inl TypeError)))"

definition py_min :: "pyval \<Rightarrow> pyval \<Rightarrow> exc + pyval" where
  "py_min a b =
     (case (num_of a, num_of b) of
        (Some x, Some y) \<Rightarrow> Inr (if f_lt y x then b else a)
      | _ \<Rightarrow> (case (a, b) of
                (PStr s, PStr t) \<Rightarrow> Inr (if t < s then b else a)
              | (PList xs, PList ys) \<Rightarrow> Inl Unmodelled
              | _ \<Rightarrow> Inl TypeError))"

definition provenance_keys :: "string list" where
  "provenance_keys = [''allowSync'', ''augmentationKey'', ''identifier'', ''librarySectionID'',
     ''librarySectionTitle'', ''librarySectionUUID'', ''mediaTagPrefix'', ''mediaTagVersion'']"

text \<open>One round of the last loop of \<open>extend\<close>.\<close>

definition fill_key :: "pyobj \<Rightarrow> string \<Rightarrow> pyobj \<Rightarrow> pyobj" where
  "fill_key other k ob =
     (if (case object_getattribute ob k of Inl e \<Rightarrow> True | Inr v \<Rightarrow> v = PNone)
      then (case object_getattribute other k of Inl e \<Rightarrow> ob | Inr w \<Rightarrow> setattr ob k w)
      else ob)"

text \<open>\<open>MediaContainer.extend\<close>, for an argument that is not the container itself.\<close>

definition extend :: "container \<Rightarrow> items_arg \<Rightarrow> exc + container" where
  "extend self it =
     ebind (object_getattribute (c_obj self) ''size'') (\<lambda>sz.
       let curr_size = (if sz \<noteq> PNone then sz else PInt (int (length (c_items self))));
           self1 = self\<lparr>c_items := c_items self @ items_of it\<rparr>
       in case it of
            Plain xs \<Rightarrow> Inr self1
          | Container other \<Rightarrow>
              ebind (object_getattribute (c_obj other) ''totalSize'') (\<lambda>ots.
              ebind (if ots \<noteq> PNone then Inr ots else object_getattribute (c_obj self) ''totalSize'') (\<lambda>ts.
              let ob1 = setattr (c_obj self) ''totalSize'' ts
              in ebind (object_getattribute (c_obj other) ''size'') (\<lambda>osz.
                 ebind (py_add curr_size (if osz \<noteq> PNone then osz else PInt (int (length (c_items other))))) (\<lambda>new_size.
                 let ob2 = setattr ob1 ''size'' new_size
                 in ebind (object_getattribute ob2 ''offset'') (\<lambda>so.
                    ebind (object_getattribute (c_obj other) ''offset'') (\<lambda>oo.
                    ebind (if so \<noteq> PNone \<and> oo \<noteq> PNone then py_min so oo
                           else Inr (if so \<noteq> PNone then so else oo)) (\<lambda>off.
                    let ob3 = setattr ob2 ''offset'' off
                    in Inr (self1\<lparr>c_obj := fold (fill_key (c_obj other)) provenance_keys ob3\<rparr>)))))))))"

section \<open>Finding and fetching items\<close>








text \<open>\<open>str(i)\<close> for an integer.\<close>

fun str_nat :: "nat \<Rightarrow> string" where
  "str_nat n =
     (if n < 10 then [''0123456789'' ! n] else str_nat (n div 10) @ [''0123456789'' ! (n mod 10)])"

definition py_str_int :: "int \<Rightarrow> string" where
  "py_str_int i = (if i < 0 then CHR ''-'' # str_nat (nat (- i)) else str_nat (nat i))"








section \<open>An environment for evaluation\<close>

text \<open>
  Instances of the imported functions, to run the definitions above on concrete inputs.
  They agree with the Python functions on the inputs used below: relative paths with at
  most a query string, query strings of \<open>name=value\<close> pairs joined by \<open>&\<close> whose
  values are letters, digits and commas, and unsigned decimal numbers. Every statement that quantifies over the environment holds
  for any other instance as well.
\<close>

definition simple_urlparse :: "pyval \<Rightarrow> exc + string \<times> string" where
  "simple_urlparse v =
     (case v of
        PStr s \<Rightarrow> Inr (takeWhile (\<lambda>c. c \<noteq> CHR ''?'') s, drop 1 (dropWhile (\<lambda>c. c \<noteq> CHR ''?'') s))
      | PNone \<Rightarrow> Inr ([], [])
      | _ \<Rightarrow> Inl TypeError)"

fun split_on :: "char \<Rightarrow> string \<Rightarrow> string list" where
  "split_on c [] = [[]]"
| "split_on c (x # xs) =
     (if x = c then [] # split_on c xs
      else (case split_on c xs of [] \<Rightarrow> [[x]] | y # ys \<Rightarrow> (x # y) # ys))"

definition simple_quote :: "string \<Rightarrow> string" where
  "simple_quote s = concat (map (\<lambda>c. if c = CHR '','' then ''%2C'' else [c]) s)"

fun simple_unquote :: "string \<Rightarrow> string" where
  "simple_unquote (a # b # c # cs) =
     (if [a, b, c] = ''%2C'' then CHR '','' # simple_unquote cs else a # simple_unquote (b # c # cs))"
| "simple_unquote cs = cs"

definition simple_parse_qsl :: "string \<Rightarrow> (string \<times> string) list" where
  "simple_parse_qsl q =
     map (\<lambda>p. (takeWhile (\<lambda>c. c \<noteq> CHR ''='') p,
               simple_unquote (drop 1 (dropWhile (\<lambda>c. c \<noteq> CHR ''='') p))))
         (filter (\<lambda>p. p \<noteq> []) (split_on (CHR ''&'') q))"

fun simple_urlencode :: "(string \<times> pyval) list \<Rightarrow> string" where
  "simple_urlencode [] = []"
| "simple_urlencode ((k, v) # ps) =
     k @ ''='' @ (case v of PStr s \<Rightarrow> simple_quote s | PInt i \<Rightarrow> py_str_int i | _ \<Rightarrow> [])
       @ (if ps = [] then [] else ''&'' @ simple_urlencode ps)"

fun decimal_value :: "nat \<Rightarrow> string \<Rightarrow> nat option" where
  "decimal_value acc [] = Some acc"
| "decimal_value acc (c # cs) =
     (let d = of_char c :: nat
      in if 48 \<le> d \<and> d \<le> 57 then decimal_value (10 * acc + (d - 48)) cs else None)"

definition decimal_int :: "string \<Rightarrow> int option" where
  "decimal_int s = (if s = [] then None else map_option int (decimal_value 0 s))"

definition decimal_int_opt :: "string option \<Rightarrow> int option" where
  "decimal_int_opt x = (case x of None \<Rightarrow> None | Some s \<Rightarrow> decimal_int s)"

definition B0 :: pybuiltins where
  "B0 = \<lparr>py_int = decimal_int, py_float = (\<lambda>s. None), re_search = (\<lambda>i p s. Inl ReError)\<rparr>"

definition E0 :: "(string, string, string \<times> string) env" where
  "E0 = \<lparr>query = (\<lambda>rlog req. Inl TransportError),
          urlparse = simple_urlparse,
          parse_qsl = simple_parse_qsl,
          urlencode = simple_urlencode,
          builtins = B0,
          USER_DONT_RELOAD_FOR_KEYS = {},
          autoreload = True,
          utils_cast_int = decimal_int_opt,
          getPlexObject = (\<lambda>ehash d. None),
          X_PLEX_CONTAINER_SIZE = 100,
          searchType = (\<lambda>t. Inr t),
          sectionByID = (\<lambda>i. Inr (PRef 1)),
          section_edit = (\<lambda>sec kwargs. None),
          fresh_eid = 0\<rparr>"

text \<open>
  A class for evaluation: a partial object with the tables of \<open>PlexPartialObject\<close>, one
  cached property \<open>genres\<close>, and a \<open>_loadData\<close> that reads four attributes of its
  element and lists its \<open>Role\<close> children.
\<close>

definition Movie_loadData :: "elem \<Rightarrow> (string \<times> pyval) list" where
  "Movie_loadData data =
     [(''key'', opt_str (attrib_get data ''key'')),
      (''librarySectionID'', opt_int (decimal_int_opt (attrib_get data ''librarySectionID''))),
      (''roles'', PList (map (\<lambda>c. PRef (eid c)) (filter (\<lambda>c. tag c = ''Role'') (children data)))),
      (''summary'', opt_str (attrib_get data ''summary'')),
      (''title'', opt_str (attrib_get data ''title''))]"

definition Movie :: pycls where
  "Movie =
     \<lparr>cls_attrs = PlexPartialObject_attrs(''TAG'' \<mapsto> PStr ''Video'', ''TYPE'' \<mapsto> PStr ''movie''),
      is_partial = True,
      is_session_or_history = False,
      cached_data_properties = PlexObjectMeta_new [Some []] [(''genres'', True), (''_loadData'', False)],
      loadData = Movie_loadData\<rparr>"

text \<open>
  A movie as a library section lists it, the element the server returns for its details
  path (with the section and a role, and still without a summary), and a server that
  knows this one path. \<open>cars\<close> is the object \<open>PlexObject.__init__\<close> builds from the listing
  (lemma \<open>cars_constructed\<close> below): a partial object with no \<open>librarySectionID\<close>, no
  \<open>summary\<close> and no roles.
\<close>

definition cars_listing :: elem where
  "cars_listing = Elem 1 ''Video'' [(''key'', ''/library/metadata/1''), (''title'', ''Cars'')] []"

definition cars_details :: elem where
  "cars_details =
     Elem 2 ''Video''
       [(''key'', ''/library/metadata/1''), (''librarySectionID'', ''1''), (''title'', ''Cars'')]
       [Elem 5 ''Role'' [(''tag'', ''Owen Wilson'')] []]"

definition cars_details_key :: string where
  "cars_details_key =
     ''/library/metadata/1?includeBandwidths=1&includeChapters=1&includeFields=thumbBlurHash%2CartBlurHash&includeGeolocation=1&includeLoudnessRamps=1&includeMarkers=1''"

definition cars :: pyobj where
  "cars =
     \<lparr>py_dict =
        [''_server'' \<mapsto> PRef 0,
         ''_data'' \<mapsto> PElem cars_listing,
         ''_initpath'' \<mapsto> PStr ''/library/sections/1/all'',
         ''_parent'' \<mapsto> PNone,
         ''_overwriteNone'' \<mapsto> PBool True,
         ''_autoReload'' \<mapsto> PBool True,
         ''_edits'' \<mapsto> PNone,
         ''key'' \<mapsto> PStr ''/library/metadata/1'',
         ''librarySectionID'' \<mapsto> PNone,
         ''roles'' \<mapsto> PList [],
         ''summary'' \<mapsto> PNone,
         ''title'' \<mapsto> PStr ''Cars'',
         ''_details_key'' \<mapsto> PStr cars_details_key],
      py_class = Movie\<rparr>"

definition E1 :: "(string, string, string \<times> string) env" where
  "E1 = E0\<lparr>query := (\<lambda>rlog req.
                 if req_key req = PStr cars_details_key
                 then Inr (Elem 3 ''MediaContainer'' [(''size'', ''1'')] [cars_details])
                 else Inl NotFound)\<rparr>"

definition cars_state :: state where
  "cars_state = \<lparr>st_obj = cars, st_requests = [], st_edits = []\<rparr>"

text \<open>The same movie after a local edit of its summary, and with a memoized \<open>genres\<close>.\<close>

definition cars_edited :: state where
  "cars_edited =
     \<lparr>st_obj = cars\<lparr>py_dict := (py_dict cars)(''summary'' \<mapsto> PStr ''My notes'')\<rparr>,
      st_requests = [], st_edits = []\<rparr>"

definition cars_with_genres :: pyobj where
  "cars_with_genres = cars\<lparr>py_dict := (py_dict cars)(''genres'' \<mapsto> PList [PRef 7])\<rparr>"

text \<open>An object without a key, as \<open>PlexObject.__init__\<close> builds it from a listing at
  \<open>/hubs\<close> whose element has no \<open>key\<close> attribute (lemma \<open>trailer_constructed\<close> below).\<close>

definition trailer_listing :: elem where
  "trailer_listing = Elem 4 ''Video'' [(''title'', ''Trailer'')] []"

definition trailer :: pyobj where
  "trailer =
     \<lparr>py_dict =
        [''_server'' \<mapsto> PRef 0,
         ''_data'' \<mapsto> PElem trailer_listing,
         ''_initpath'' \<mapsto> PStr ''/hubs'',
         ''_parent'' \<mapsto> PNone,
         ''_overwriteNone'' \<mapsto> PBool True,
         ''_autoReload'' \<mapsto> PBool True,
         ''_edits'' \<mapsto> PNone,
         ''key'' \<mapsto> PNone,
         ''librarySectionID'' \<mapsto> PNone,
         ''roles'' \<mapsto> PList [],
         ''summary'' \<mapsto> PNone,
         ''title'' \<mapsto> PStr ''Trailer'',
         ''_details_key'' \<mapsto> PNone],
      py_class = Movie\<rparr>"

text \<open>
  A listing for evaluation: the 25 genres of a library section, a class \<open>Genre\<close> that
  the registry knows by its tag, and a server that answers the listing's path page by
  page, reporting \<open>totalSize\<close>, \<open>size\<close> and \<open>offset\<close> on every page. The two shelves are
  the containers \<open>MediaContainer.__init__\<close> builds from two responses (lemma
  \<open>shelves_constructed\<close> below).
\<close>

definition Genre :: pycls where
  "Genre =
     \<lparr>cls_attrs = PlexObject_attrs(''TAG'' \<mapsto> PStr ''Genre''),
      is_partial = False,
      is_session_or_history = False,
      cached_data_properties = [],
      loadData = (\<lambda>data. [(''tag'', opt_str (attrib_get data ''tag''))])\<rparr>"




definition shelf_a :: container where
  "shelf_a =
     \<lparr>c_obj =
        \<lparr>py_dict =
           [''_server'' \<mapsto> PRef 0,
            ''_data'' \<mapsto> PElem (Elem 6 ''MediaContainer'' [(''offset'', ''20''), (''identifier'', ''com.plexapp.plugins.library'')] []),
            ''_initpath'' \<mapsto> PStr ''/library/sections/1/all'',
            ''_parent'' \<mapsto> PNone,
            ''_overwriteNone'' \<mapsto> PBool True,
            ''_autoReload'' \<mapsto> PBool True,
            ''_edits'' \<mapsto> PNone,
            ''allowSync'' \<mapsto> PNone,
            ''augmentationKey'' \<mapsto> PNone,
            ''identifier'' \<mapsto> PStr ''com.plexapp.plugins.library'',
            ''librarySectionID'' \<mapsto> PNone,
            ''librarySectionTitle'' \<mapsto> PNone,
            ''librarySectionUUID'' \<mapsto> PNone,
            ''mediaTagPrefix'' \<mapsto> PNone,
            ''mediaTagVersion'' \<mapsto> PNone,
            ''offset'' \<mapsto> PInt 20,
            ''size'' \<mapsto> PNone,
            ''totalSize'' \<mapsto> PNone,
            ''_details_key'' \<mapsto> PNone],
         py_class = MediaContainer_class E0\<rparr>,
      c_items = [cars]\<rparr>"

definition shelf_b :: container where
  "shelf_b =
     \<lparr>c_obj =
        \<lparr>py_dict =
           [''_server'' \<mapsto> PRef 0,
            ''_data'' \<mapsto> PElem (Elem 7 ''MediaContainer''
               [(''offset'', ''0''), (''size'', ''2''), (''totalSize'', ''25''), (''identifier'', ''other''),
                (''librarySectionID'', ''1'')] []),
            ''_initpath'' \<mapsto> PStr ''/library/sections/1/all'',
            ''_parent'' \<mapsto> PNone,
            ''_overwriteNone'' \<mapsto> PBool True,
            ''_autoReload'' \<mapsto> PBool True,
            ''_edits'' \<mapsto> PNone,
            ''allowSync'' \<mapsto> PNone,
            ''augmentationKey'' \<mapsto> PNone,
            ''identifier'' \<mapsto> PStr ''other'',
            ''librarySectionID'' \<mapsto> PInt 1,
            ''librarySectionTitle'' \<mapsto> PNone,
            ''librarySectionUUID'' \<mapsto> PNone,
            ''mediaTagPrefix'' \<mapsto> PNone,
            ''mediaTagVersion'' \<mapsto> PNone,
            ''offset'' \<mapsto> PInt 0,
            ''size'' \<mapsto> PInt 2,
            ''totalSize'' \<mapsto> PInt 25,
            ''_details_key'' \<mapsto> PNone],
         py_class = MediaContainer_class E0\<rparr>,
      c_items = [trailer, cars]\<rparr>"

section \<open>Properties of the query evaluator\<close>

text \<open>
  Claim C4 says that \<open>_getAttrValue\<close> returns every contributing attribute occurrence
  exactly once. For a path with two child segments the source returns the one value of
  the document \<open><Video><Media><Part file="a"/></Media></Video>\<close> twice: the inner call
  appends it to the shared list and returns a copy of that list, which the outer call
  appends to the same list again.
\<close>

theorem getAttrValue_repeats_value:
  "fst (getAttrValue
         (Elem 0 ''Video'' [] [Elem 1 ''Media'' [] [Elem 2 ''Part'' [(''file'', ''a'')] []]])
         ''Media__Part__file'' None) = [''a'', ''a'']"
  by (simp add: Let_def lower_def lower_char_def)

text \<open>
  Claim C3 says that \<open>_checkAttrs\<close> returns true only if every predicate is satisfied.
  On \<open><Video title="a"/>\<close> with the filters \<open>title='b', genre=None\<close> it returns true,
  whatever the built-ins are: the predicate on \<open>title\<close> fails, and the special case for
  the missing attribute \<open>genre\<close> returns from the whole function.
\<close>

theorem checkAttrs_early_return:
  "checkAttrs B (Elem 0 ''Video'' [(''title'', ''a'')] [])
     [(''title'', PStr ''b''), (''genre'', PNone)] = Inr True"
  by (simp add: checkAttrs_def getAttrOperator_def OPERATORS_def endswith_def Let_def lower_def
      lower_char_def castAttrValue_def cv_eq_def in_none_zero_empty_def)

section \<open>Attribute storage, loading and invalidation\<close>

lemma py_class_setattr [simp]: "py_class (setattr ob a v) = py_class ob"
  by (simp add: setattr_def Let_def)

lemma py_dict_setattr_other [simp]: "b \<noteq> a \<Longrightarrow> py_dict (setattr ob a v) b = py_dict ob b"
  by (simp add: setattr_def Let_def)

lemma py_dict_setattr_stored:
  "v \<noteq> PNone \<or> startswith a ''_'' \<or> py_dict ob a = None \<Longrightarrow> py_dict (setattr ob a v) a = Some v"
  by (auto simp: setattr_def Let_def)

lemma py_dict_setattr_None:
  "\<not> startswith a ''_'' \<Longrightarrow> py_dict ob a = Some w \<Longrightarrow> py_dict ob ''_overwriteNone'' = Some f \<Longrightarrow>
   py_dict (setattr ob a PNone) a = (if truthy f then Some PNone else Some w)"
  by (auto simp: setattr_def Let_def)

lemma setattr_grows: "py_dict ob a \<noteq> None \<Longrightarrow> py_dict (setattr ob x y) a \<noteq> None"
  by (auto simp: setattr_def Let_def)

lemma fold_setattr_class [simp]:
  "py_class (fold (\<lambda>(a, v) o'. setattr o' a v) xs ob) = py_class ob"
  by (induction xs arbitrary: ob) (auto simp: case_prod_beta)

lemma fold_setattr_other:
  "b \<notin> fst ` set xs \<Longrightarrow> py_dict (fold (\<lambda>(a, v) o'. setattr o' a v) xs ob) b = py_dict ob b"
  by (induction xs arbitrary: ob) (auto simp: case_prod_beta)

lemma fold_setattr_grows:
  "py_dict ob a \<noteq> None \<Longrightarrow> py_dict (fold (\<lambda>(a, v) o'. setattr o' a v) xs ob) a \<noteq> None"
proof (induction xs arbitrary: ob)
  case Nil
  then show ?case by simp
next
  case (Cons x xs)
  then show ?case using setattr_grows [of ob a "fst x" "snd x"] by (simp add: case_prod_beta)
qed

lemma py_class_run_loadData [simp]: "py_class (run_loadData ob d) = py_class ob"
  by (simp add: run_loadData_def)

lemma py_dict_run_loadData_other:
  "b \<notin> fst ` set (loadData (py_class ob) d) \<Longrightarrow> py_dict (run_loadData ob d) b = py_dict ob b"
  by (simp add: run_loadData_def fold_setattr_other)

lemma fold_setattr_flag:
  assumes "py_dict ob ''_overwriteNone'' = Some (PBool False)"
      and "''_overwriteNone'' \<notin> fst ` set xs"
      and "\<not> startswith a ''_''"
      and "py_dict ob a = Some w"
      and "\<forall>v. (a, v) \<in> set xs \<longrightarrow> v = PNone"
  shows "py_dict (fold (\<lambda>(a, v) o'. setattr o' a v) xs ob) a = Some w"
  using assms
proof (induction xs arbitrary: ob)
  case Nil
  then show ?case by simp
next
  case (Cons x xs)
  obtain k v where x: "x = (k, v)" by (cases x)
  have k: "k \<noteq> ''_overwriteNone''" using Cons.prems(2) x by auto
  have flag: "py_dict (setattr ob k v) ''_overwriteNone'' = Some (PBool False)"
    using Cons.prems(1) k by simp
  have keep: "py_dict (setattr ob k v) a = Some w"
  proof (cases "k = a")
    case True
    then have "v = PNone" using Cons.prems(5) x by auto
    then show ?thesis using True Cons.prems(1,3,4) by (simp add: setattr_def Let_def)
  next
    case False
    then show ?thesis using Cons.prems(4) by simp
  qed
  show ?case
    using Cons.IH [OF flag _ Cons.prems(3) keep] Cons.prems(2,5) x by auto
qed

lemma fold_setattr_overwrite:
  assumes "py_dict ob ''_overwriteNone'' = Some (PBool True)"
      and "''_overwriteNone'' \<notin> fst ` set xs"
      and "a \<in> fst ` set xs"
      and "\<forall>v. (a, v) \<in> set xs \<longrightarrow> v = PNone"
  shows "py_dict (fold (\<lambda>(a, v) o'. setattr o' a v) xs ob) a = Some PNone"
  using assms
proof (induction xs arbitrary: ob)
  case Nil
  then show ?case by simp
next
  case (Cons x xs)
  obtain k v where x: "x = (k, v)" by (cases x)
  have k: "k \<noteq> ''_overwriteNone''" using Cons.prems(2) x by auto
  have flag: "py_dict (setattr ob k v) ''_overwriteNone'' = Some (PBool True)"
    using Cons.prems(1) k by simp
  show ?case
  proof (cases "a \<in> fst ` set xs")
    case True
    then show ?thesis using Cons.IH [OF flag _ True] Cons.prems(2,4) x by auto
  next
    case False
    then have ka: "k = a" and "v = PNone" using Cons.prems(3,4) x by auto
    then have "py_dict (setattr ob k v) a = Some PNone"
      using Cons.prems(1) by (simp add: setattr_def Let_def)
    then show ?thesis using False x by (simp add: fold_setattr_other)
  qed
qed

lemma run_loadData_None:
  assumes "py_dict ob ''_overwriteNone'' = Some (PBool b)"
      and "''_overwriteNone'' \<notin> fst ` set (loadData (py_class ob) d)"
      and "\<not> startswith a ''_''"
      and "py_dict ob a = Some w"
      and "a \<in> fst ` set (loadData (py_class ob) d)"
      and "\<forall>v. (a, v) \<in> set (loadData (py_class ob) d) \<longrightarrow> v = PNone"
  shows "py_dict (run_loadData ob d) a = (if b then Some PNone else Some w)"
  using assms fold_setattr_flag [of ob "loadData (py_class ob) d" a w]
    fold_setattr_overwrite [of ob "loadData (py_class ob) d" a]
  by (cases b) (simp_all add: run_loadData_def)

lemma fold_invalidate:
  "py_class (fold (\<lambda>p o'. if py_dict o' p \<noteq> None then o'\<lparr>py_dict := (py_dict o')(p := None)\<rparr> else o') ps ob) = py_class ob
   \<and> py_dict (fold (\<lambda>p o'. if py_dict o' p \<noteq> None then o'\<lparr>py_dict := (py_dict o')(p := None)\<rparr> else o') ps ob) a
       = (if a \<in> set ps then None else py_dict ob a)"
  by (induction ps arbitrary: ob) auto

lemma py_class_invalidateCachedProperties [simp]:
  "py_class (invalidateCachedProperties ob) = py_class ob"
  unfolding invalidateCachedProperties_def by (rule fold_invalidate [THEN conjunct1])

lemma py_dict_invalidateCachedProperties:
  "py_dict (invalidateCachedProperties ob) a =
     (if a \<in> set (cached_data_properties (py_class ob)) then None else py_dict ob a)"
  unfolding invalidateCachedProperties_def by (rule fold_invalidate [THEN conjunct2])

lemma py_class_invalidateCacheAndLoadData [simp]:
  "py_class (invalidateCacheAndLoadData ob d) = py_class ob"
  by (simp add: invalidateCacheAndLoadData_def Let_def)

lemma py_dict_invalidateCacheAndLoadData_other:
  "a \<notin> fst ` set (loadData (py_class ob) d) \<Longrightarrow> a \<notin> set (cached_data_properties (py_class ob)) \<Longrightarrow>
   a \<noteq> ''_data'' \<Longrightarrow> py_dict (invalidateCacheAndLoadData ob d) a = py_dict ob a"
  by (simp add: invalidateCacheAndLoadData_def Let_def py_dict_run_loadData_other
      py_dict_invalidateCachedProperties)

lemma invalidateCacheAndLoadData_grows:
  assumes "py_dict ob a \<noteq> None" "a \<notin> set (cached_data_properties (py_class ob))"
  shows "py_dict (invalidateCacheAndLoadData ob d) a \<noteq> None"
proof -
  have "py_dict (setattr ob ''_data'' (PElem d)) a \<noteq> None"
    using assms(1) by (rule setattr_grows)
  then have "py_dict (if IdElem (eid d) \<noteq> data_id ob
                       then invalidateCachedProperties (setattr ob ''_data'' (PElem d))
                       else setattr ob ''_data'' (PElem d)) a \<noteq> None"
    using assms(2) by (simp add: py_dict_invalidateCachedProperties)
  then show ?thesis
    unfolding invalidateCacheAndLoadData_def Let_def run_loadData_def by (rule fold_setattr_grows)
qed

lemma set_fold_insert: "set (fold List.insert ps acc) = set ps \<union> set acc"
  by (induction ps arbitrary: acc) auto

lemma set_PlexObjectMeta_new:
  "set (PlexObjectMeta_new bases attrs) =
     (\<Union>b \<in> set bases. case b of None \<Rightarrow> {} | Some ps \<Rightarrow> set ps) \<union> {n. (n, True) \<in> set attrs}"
proof -
  have a: "set (fold (\<lambda>base props. case base of None \<Rightarrow> props | Some ps \<Rightarrow> fold List.insert ps props) bases acc)
         = (\<Union>b \<in> set bases. case b of None \<Rightarrow> {} | Some ps \<Rightarrow> set ps) \<union> set acc" for acc
    by (induction bases arbitrary: acc) (auto simp: set_fold_insert split: option.splits)
  have b: "set (fold (\<lambda>(attr_name, is_cached) props. if is_cached then List.insert attr_name props else props) attrs acc)
         = {n. (n, True) \<in> set attrs} \<union> set acc" for acc
    by (induction attrs arbitrary: acc) (auto split: if_splits)
  show ?thesis unfolding PlexObjectMeta_new_def by (simp add: a b Un_commute)
qed

lemma object_getattribute_cong:
  "py_dict ob' a = py_dict ob a \<Longrightarrow> py_class ob' = py_class ob \<Longrightarrow>
   object_getattribute ob' a = object_getattribute ob a"
  by (simp add: object_getattribute_def split: option.splits)

lemma object_getattribute_dict:
  "py_dict ob a = Some v \<Longrightarrow> object_getattribute ob a = Inr v"
  by (simp add: object_getattribute_def)

lemma object_getattribute_grows:
  assumes "object_getattribute ob a = Inr v" "py_class ob' = py_class ob"
      and "py_dict ob a \<noteq> None \<Longrightarrow> py_dict ob' a \<noteq> None"
  shows "\<exists>v'. object_getattribute ob' a = Inr v'"
  using assms by (auto simp: object_getattribute_def split: option.splits if_splits)

lemma private_names [simp]:
  "startswith ''_initpath'' ''_''" "startswith ''_overwriteNone'' ''_''"
  "startswith ''_details_key'' ''_''" "startswith ''_data'' ''_''" "startswith ''_edits'' ''_''"
  by (simp_all add: startswith_def)

lemma init_flag:
  assumes "PlexObject_init E c server data initpath parent = Inr ob0"
      and "\<forall>d. ''_overwriteNone'' \<notin> fst ` set (loadData c d)"
  shows "py_dict ob0 ''_overwriteNone'' = Some (PBool True)"
proof -
  have a: "py_dict (setattr (setattr (setattr ob ''_overwriteNone'' (PBool True)) ''_autoReload'' x) ''_edits'' y)
             ''_overwriteNone'' = Some (PBool True)" for ob x y
    by (simp add: py_dict_setattr_stored)
  have b: "py_class (setattr (setattr (setattr ob ''_overwriteNone'' (PBool True)) ''_autoReload'' x) ''_edits'' y)
             = py_class ob" for ob x y
    by simp
  show ?thesis
    using assms
    by (auto simp: PlexObject_init_def ebind_def Let_def a py_dict_run_loadData_other
        split: sum.splits option.splits if_splits)
qed

section \<open>Reload and attribute access\<close>

lemma reload_success:
  assumes dk: "object_getattribute (st_obj st) ''_details_key'' = Inr dk"
      and key: "object_getattribute (st_obj st) ''key'' = Inr key"
      and K: "truthy (py_or dk key)"
      and srv: "query E (st_requests st) \<lparr>req_key = py_or dk key, req_headers = [], req_params = PNone\<rparr> = Inr resp"
               "children resp = d # ds"
  shows "reload E PNone b [] st =
           (Inr (),
            st\<lparr>st_obj := setattr (invalidateCacheAndLoadData
                                   (setattr (setattr (st_obj st) ''_initpath'' (py_or dk key))
                                      ''_overwriteNone'' (PBool b)) d)
                                ''_overwriteNone'' (PBool True),
               st_requests := st_requests st @ [\<lparr>req_key = py_or dk key, req_headers = [], req_params = PNone\<rparr>]\<rparr>)"
  using assms by (cases "truthy dk") (simp_all add: reload_def py_or_def Let_def)

lemma reload_requests:
  assumes dk: "object_getattribute (st_obj st) ''_details_key'' = Inr dk"
      and key: "object_getattribute (st_obj st) ''key'' = Inr key"
      and K: "truthy (py_or dk key)"
  shows "st_requests (snd (reload E PNone b [] st)) =
           st_requests st @ [\<lparr>req_key = py_or dk key, req_headers = [], req_params = PNone\<rparr>]"
  using assms
  by (cases "truthy dk")
     (auto simp: reload_def py_or_def Let_def split: sum.splits list.splits)

lemma reload_completed:
  assumes "reload E key b kwargs st = (Inr (), st')"
  shows "\<exists>k resp d ds.
           st_requests st' = st_requests st @ [\<lparr>req_key = k, req_headers = [], req_params = PNone\<rparr>]
         \<and> query E (st_requests st) \<lparr>req_key = k, req_headers = [], req_params = PNone\<rparr> = Inr resp
         \<and> children resp = d # ds
         \<and> st_obj st' = setattr (invalidateCacheAndLoadData
                                   (setattr (setattr (st_obj st) ''_initpath'' k) ''_overwriteNone'' (PBool b)) d)
                                ''_overwriteNone'' (PBool True)"
  using assms
  by (auto simp: reload_def Let_def split: sum.splits if_splits list.splits)

lemma isFullObject_False:
  assumes "object_getattribute ob ''_details_key'' = Inr dk"
      and "object_getattribute ob ''key'' = Inr key"
      and "isFullObject E ob = Inr False"
  shows "truthy key \<and> (\<exists>pk. urlparse E (py_or dk key) = Inr pk)"
  using assms
  by (cases "truthy dk")
     (auto simp: isFullObject_def ebind_def py_or_def Let_def split: sum.splits)

lemma isFullObject_same_path:
  assumes "object_getattribute ob ''_details_key'' = Inr dk"
      and "object_getattribute ob ''key'' = Inr key"
      and "object_getattribute ob ''_initpath'' = Inr K"
      and "truthy dk \<or> key = key0" "K = py_or dk key0"
      and "urlparse E K = Inr pk"
  shows "isFullObject E ob = Inr True"
  using assms
  by (cases "truthy dk")
     (auto simp: isFullObject_def ebind_def py_or_def Let_def split: sum.splits)

lemma getattribute_full:
  assumes "isFullObject E (st_obj st) = Inr True"
  shows "getattribute E attr st = (object_getattribute (st_obj st) attr, st)"
  using assms by (auto simp: getattribute_def split: sum.splits)

lemma fold_setattr_loaded:
  assumes "\<not> startswith a ''_''"
      and "''_overwriteNone'' \<notin> fst ` set xs"
      and "\<not> truthy (case py_dict ob ''_overwriteNone'' of Some f \<Rightarrow> f | None \<Rightarrow> PNone)"
      and "object_getattribute ob a = Inr cur"
      and "cur \<noteq> PNone \<longrightarrow> py_dict ob a \<noteq> None"
  shows "object_getattribute (fold (\<lambda>(a, v) o'. setattr o' a v) xs ob) a =
           Inr (case filter (\<lambda>v. v \<noteq> PNone) (map snd (filter (\<lambda>p. fst p = a) xs)) of
                  [] \<Rightarrow> cur | v # vs \<Rightarrow> last (v # vs))"
  using assms
proof (induction xs arbitrary: ob cur)
  case Nil
  then show ?case by simp
next
  case (Cons x xs)
  obtain k v where x: "x = (k, v)" by (cases x)
  let ?ob = "setattr ob k v"
  have k: "k \<noteq> ''_overwriteNone''" and rest: "''_overwriteNone'' \<notin> fst ` set xs"
    using Cons.prems(2) x by auto
  have flag: "\<not> truthy (case py_dict ?ob ''_overwriteNone'' of Some f \<Rightarrow> f | None \<Rightarrow> PNone)"
    using Cons.prems(3) k by simp
  show ?case
  proof (cases "k = a")
    case False
    have same: "object_getattribute ?ob a = Inr cur"
      using Cons.prems(4) False object_getattribute_cong [of ?ob a ob] by simp
    have inv: "cur \<noteq> PNone \<longrightarrow> py_dict ?ob a \<noteq> None"
      using Cons.prems(5) False by simp
    from Cons.IH [OF Cons.prems(1) rest flag same inv] show ?thesis
      using False by (simp add: x)
  next
    case True
    show ?thesis
    proof (cases "v = PNone")
      case vn: True
      have same: "object_getattribute ?ob a = Inr cur"
        using Cons.prems(1,3,4,5) True vn
        by (auto simp: setattr_def Let_def object_getattribute_def split: option.splits if_splits)
      have inv: "cur \<noteq> PNone \<longrightarrow> py_dict ?ob a \<noteq> None"
        using Cons.prems(5) by (auto simp: setattr_def Let_def)
      from Cons.IH [OF Cons.prems(1) rest flag same inv] show ?thesis
        using True vn by (simp add: x)
    next
      case vs: False
      have stored: "object_getattribute ?ob a = Inr v"
        using True vs by (simp add: setattr_def Let_def object_getattribute_def)
      have inv: "v \<noteq> PNone \<longrightarrow> py_dict ?ob a \<noteq> None"
        using True vs by (simp add: setattr_def Let_def)
      from Cons.IH [OF Cons.prems(1) rest flag stored inv] show ?thesis
        using True vs by (simp add: x split: list.splits)
    qed
  qed
qed

lemma invalidateCacheAndLoadData_loaded:
  assumes pub: "\<not> startswith a ''_''"
      and nc: "a \<notin> set (cached_data_properties (py_class ob))"
      and nf: "''_overwriteNone'' \<notin> fst ` set (loadData (py_class ob) d)"
      and flag: "py_dict ob ''_overwriteNone'' = Some (PBool False)"
      and cur: "object_getattribute ob a = Inr PNone"
  shows "object_getattribute (invalidateCacheAndLoadData ob d) a =
           Inr (case filter (\<lambda>v. v \<noteq> PNone) (map snd (filter (\<lambda>p. fst p = a) (loadData (py_class ob) d))) of
                  [] \<Rightarrow> PNone | v # vs \<Rightarrow> last (v # vs))"
proof -
  define o3 where "o3 = (if IdElem (eid d) \<noteq> data_id ob
                         then invalidateCachedProperties (setattr ob ''_data'' (PElem d))
                         else setattr ob ''_data'' (PElem d))"
  have na: "a \<noteq> ''_data''" using pub by (auto simp: startswith_def)
  have c3: "py_class o3 = py_class ob" by (simp add: o3_def)
  have d3: "py_dict o3 a = py_dict ob a"
    using na nc by (simp add: o3_def py_dict_invalidateCachedProperties)
  have r3: "object_getattribute o3 a = Inr PNone"
    using object_getattribute_cong [OF d3 c3] cur by simp
  have f3: "\<not> truthy (case py_dict o3 ''_overwriteNone'' of Some f \<Rightarrow> f | None \<Rightarrow> PNone)"
    using flag by (simp add: o3_def py_dict_invalidateCachedProperties)
  have il: "invalidateCacheAndLoadData ob d = run_loadData o3 d"
    by (simp add: invalidateCacheAndLoadData_def Let_def o3_def)
  show ?thesis
    unfolding il run_loadData_def c3
    by (rule fold_setattr_loaded [OF pub nf f3 r3]) simp
qed

section \<open>The objects used for evaluation\<close>

text \<open>\<open>__setattr__\<close> on an object given by its fields, for evaluation.\<close>

lemma setattr_rec:
  "setattr \<lparr>py_dict = m, py_class = c\<rparr> a v =
     \<lparr>py_dict = (if v \<noteq> PNone \<or> startswith a ''_'' \<or> m a = None
                      \<or> truthy (case m ''_overwriteNone'' of Some f \<Rightarrow> f | None \<Rightarrow> PNone)
                   then m(a \<mapsto> v) else m),
      py_class = c\<rparr>"
  by (simp add: setattr_def Let_def)

lemma default_params:
  "exclude_params [] PlexPartialObject_EXCLUDES (include_params [] PlexPartialObject_INCLUDES []) =
  [(''includeBandwidths'', PInt 1), (''includeChapters'', PInt 1), (''includeFields'', PStr ''thumbBlurHash,artBlurHash''),
   (''includeGeolocation'', PInt 1), (''includeLoudnessRamps'', PInt 1), (''includeMarkers'', PInt 1)]"
  by (simp add: include_params_def exclude_params_def PlexPartialObject_INCLUDES_def PlexPartialObject_EXCLUDES_def
      kwargs_pop_def in_false_zero_str0_def one_if_True_def f_eq_def)

lemmas init_eval = PlexObject_init_def setattr_rec startswith_def ebind_def buildDetailsKey_def table_items_def
     object_getattribute_def run_loadData_def Movie_loadData_def Movie_def E0_def opt_str_def opt_int_def attrib_get_def
     decimal_int_opt_def decimal_int_def PlexPartialObject_attrs_def PlexObject_attrs_def default_params simple_quote_def py_str_int_def
     PlexObjectMeta_new_def

lemma cars_constructed:
  "PlexObject_init E0 Movie (PRef 0) (Some cars_listing) (PStr ''/library/sections/1/all'') PNone = Inr cars"
  by (simp add: cars_def cars_listing_def cars_details_key_def init_eval)

lemma trailer_constructed:
  "PlexObject_init E0 Movie (PRef 0) (Some trailer_listing) (PStr ''/hubs'') PNone = Inr trailer"
  by (simp add: trailer_def trailer_listing_def init_eval include_params_def exclude_params_def)

lemma cars_attrs:
  "object_getattribute cars ''_details_key'' = Inr (PStr cars_details_key)"
  "object_getattribute cars ''key'' = Inr (PStr ''/library/metadata/1'')"
  "object_getattribute cars ''_initpath'' = Inr (PStr ''/library/sections/1/all'')"
  "object_getattribute cars ''_autoReload'' = Inr (PBool True)"
  "object_getattribute cars ''summary'' = Inr PNone"
  "object_getattribute cars ''roles'' = Inr (PList [])"
  "object_getattribute cars ''title'' = Inr (PStr ''Cars'')"
  "object_getattribute cars ''_edits'' = Inr PNone"
  by (simp_all add: cars_def object_getattribute_def)

lemma cars_class:
  "py_class cars = Movie"
  "\<not> is_session_or_history Movie"
  "cached_data_properties Movie = [''genres'']"
  "loadData Movie = Movie_loadData"
  by (simp_all add: cars_def Movie_def PlexObjectMeta_new_def)

lemma cars_key_truthy: "cars_details_key \<noteq> []"
  by (simp add: cars_details_key_def)

lemma cars_urls:
  "urlparse E0 (PStr cars_details_key) =
     Inr (''/library/metadata/1'',
          ''includeBandwidths=1&includeChapters=1&includeFields=thumbBlurHash%2CartBlurHash&includeGeolocation=1&includeLoudnessRamps=1&includeMarkers=1'')"
  "urlparse E0 (PStr ''/library/sections/1/all'') = Inr (''/library/sections/1/all'', [])"
  by (simp_all add: E0_def simple_urlparse_def cars_details_key_def)

lemma E1_fields:
  "urlparse E1 = urlparse E0" "parse_qsl E1 = parse_qsl E0" "USER_DONT_RELOAD_FOR_KEYS E1 = {}"
  "query E1 rlog \<lparr>req_key = PStr cars_details_key, req_headers = [], req_params = PNone\<rparr> =
     Inr (Elem 3 ''MediaContainer'' [(''size'', ''1'')] [cars_details])"
  by (simp_all add: E1_def E0_def)

lemma isFullObject_E1: "isFullObject E1 ob = isFullObject E0 ob"
  by (simp add: isFullObject_def E1_fields)

lemma cars_not_full: "isFullObject E0 cars = Inr False"
  by (simp add: isFullObject_def ebind_def cars_attrs cars_urls cars_key_truthy)

lemma cars_partial: "isFullObject E1 cars = Inr False"
  by (simp add: isFullObject_E1 cars_not_full)

lemma public_names:
  "''summary'' \<notin> DONT_RELOAD_FOR_KEYS" "\<not> startswith ''summary'' ''_''"
  "''roles'' \<notin> DONT_RELOAD_FOR_KEYS" "\<not> startswith ''roles'' ''_''"
  "''title'' \<notin> DONT_RELOAD_FOR_KEYS" "\<not> startswith ''title'' ''_''"
  by (simp_all add: DONT_RELOAD_FOR_KEYS_def startswith_def)

lemma cars_details_loads:
  "fst ` set (Movie_loadData d) = {''key'', ''librarySectionID'', ''roles'', ''summary'', ''title''}"
  by (auto simp: Movie_loadData_def)

lemma cars_request:
  "query E1 (st_requests cars_state)
     \<lparr>req_key = py_or (PStr cars_details_key) (PStr ''/library/metadata/1''),
        req_headers = [], req_params = PNone\<rparr> =
   Inr (Elem 3 ''MediaContainer'' [(''size'', ''1'')] [cars_details])"
  by (simp add: py_or_def cars_key_truthy E1_fields)

lemma genres_facts:
  "py_class cars_with_genres = Movie"
  "py_dict cars_with_genres ''genres'' = Some (PList [PRef 7])"
  "data_id cars_with_genres = IdElem 1"
  by (simp_all add: cars_with_genres_def cars_def data_id_def object_getattribute_def
      cars_listing_def)

lemma edited_facts:
  "st_obj cars_edited = cars\<lparr>py_dict := (py_dict cars)(''summary'' \<mapsto> PStr ''My notes'')\<rparr>"
  "st_requests cars_edited = []"
  "object_getattribute (st_obj cars_edited) ''_details_key'' = Inr (PStr cars_details_key)"
  "object_getattribute (st_obj cars_edited) ''key'' = Inr (PStr ''/library/metadata/1'')"
  "py_dict (st_obj cars_edited) ''summary'' = Some (PStr ''My notes'')"
  "py_class (st_obj cars_edited) = Movie"
  by (simp_all add: cars_edited_def cars_def object_getattribute_def)

lemma summary_absent: "(''summary'', v) \<in> set (Movie_loadData cars_details) \<Longrightarrow> v = PNone"
  by (simp add: Movie_loadData_def cars_details_def attrib_get_def opt_str_def)

lemma section_public:
  "''librarySectionID'' \<notin> DONT_RELOAD_FOR_KEYS" "\<not> startswith ''librarySectionID'' ''_''"
  "object_getattribute cars ''librarySectionID'' = Inr PNone"
  by (simp_all add: DONT_RELOAD_FOR_KEYS_def startswith_def cars_def object_getattribute_def)

lemma section_loaded:
  "(case filter (\<lambda>v. v \<noteq> PNone)
           (map snd (filter (\<lambda>p. fst p = ''librarySectionID'') (Movie_loadData cars_details))) of
      [] \<Rightarrow> PNone | v # vs \<Rightarrow> last (v # vs)) = PInt 1"
  by (simp add: Movie_loadData_def cars_details_def attrib_get_def opt_int_def opt_str_def
      decimal_int_opt_def decimal_int_def)

section \<open>Containers\<close>

lemmas mc_eval = MediaContainer_init_def PlexObject_init_def setattr_rec startswith_def ebind_def
  buildDetailsKey_def table_items_def object_getattribute_def run_loadData_def
  MediaContainer_class_def MediaContainer_loadData_def include_params_def exclude_params_def

lemma shelves_constructed:
  "MediaContainer_init E0 (PRef 0)
     (Elem 6 ''MediaContainer'' [(''offset'', ''20''), (''identifier'', ''com.plexapp.plugins.library'')] [])
     [cars] (PStr ''/library/sections/1/all'') PNone = Inr shelf_a"
  "MediaContainer_init E0 (PRef 0)
     (Elem 7 ''MediaContainer''
               [(''offset'', ''0''), (''size'', ''2''), (''totalSize'', ''25''), (''identifier'', ''other''),
                (''librarySectionID'', ''1'')] [])
     [trailer, cars] (PStr ''/library/sections/1/all'') PNone = Inr shelf_b"
  by (simp_all add: shelf_a_def shelf_b_def mc_eval E0_def opt_int_def opt_str_def attrib_get_def
      decimal_int_opt_def decimal_int_def)


lemma setattr_lookup:
  "object_getattribute ob a = Inr u \<Longrightarrow> (v = PNone \<Longrightarrow> u = PNone) \<Longrightarrow>
   object_getattribute (setattr ob a v) a = Inr v"
  by (auto simp: object_getattribute_def setattr_def Let_def split: option.splits)

lemma setattr_lookup_other:
  "a \<noteq> b \<Longrightarrow> object_getattribute (setattr ob a v) b = object_getattribute ob b"
  by (rule object_getattribute_cong) simp_all

lemma py_class_fill_key [simp]: "py_class (fill_key other k ob) = py_class ob"
  by (simp add: fill_key_def split: sum.splits)

lemma fill_key_other:
  "k' \<noteq> k \<Longrightarrow> object_getattribute (fill_key other k ob) k' = object_getattribute ob k'"
  by (rule object_getattribute_cong) (simp_all add: fill_key_def split: sum.splits)

lemma fill_key_same:
  "object_getattribute (fill_key other k ob) k =
     (if isl (object_getattribute ob k) \<or> object_getattribute ob k = Inr PNone
      then (if isl (object_getattribute other k) then object_getattribute ob k
            else object_getattribute other k)
      else object_getattribute ob k)"
  by (auto simp: fill_key_def object_getattribute_def setattr_def Let_def split: sum.splits option.splits)

lemma fold_fill_key_other:
  "k \<notin> set ks \<Longrightarrow> object_getattribute (fold (fill_key other) ks ob) k = object_getattribute ob k"
  by (induction ks arbitrary: ob) (auto simp: fill_key_other)

lemma fold_fill_key:
  "distinct ks \<Longrightarrow> k \<in> set ks \<Longrightarrow>
   object_getattribute (fold (fill_key other) ks ob) k =
     (if isl (object_getattribute ob k) \<or> object_getattribute ob k = Inr PNone
      then (if isl (object_getattribute other k) then object_getattribute ob k
            else object_getattribute other k)
      else object_getattribute ob k)"
proof (induction ks arbitrary: ob)
  case Nil
  then show ?case by simp
next
  case (Cons x ks)
  show ?case
  proof (cases "x = k")
    case True
    then have "k \<notin> set ks" using Cons.prems(1) by simp
    then show ?thesis using True by (simp add: fold_fill_key_other fill_key_same)
  next
    case False
    then have "k \<in> set ks" "distinct ks" using Cons.prems by auto
    then show ?thesis using Cons.IH [of "fill_key other x ob"] False
      by (simp add: fill_key_other)
  qed
qed

lemma py_min_ints: "py_min (PInt a) (PInt b) = Inr (PInt (min a b))"
  by (simp add: py_min_def min_def)

lemma py_add_ints: "py_add (PInt a) (PInt b) = Inr (PInt (a + b))"
  by (simp add: py_add_def)

lemma provenance_keys_distinct: "distinct provenance_keys"
  by (simp add: provenance_keys_def)

lemma counters_not_provenance:
  "k \<in> set provenance_keys \<Longrightarrow> k \<noteq> ''size'' \<and> k \<noteq> ''offset'' \<and> k \<noteq> ''totalSize''"
  by (auto simp: provenance_keys_def)

lemma extend_Container:
  assumes s_size: "object_getattribute (c_obj self) ''size'' = Inr (opt_int ssz)"
      and s_off: "object_getattribute (c_obj self) ''offset'' = Inr (opt_int soff)"
      and s_ts: "object_getattribute (c_obj self) ''totalSize'' = Inr sts"
      and o_size: "object_getattribute (c_obj other) ''size'' = Inr (opt_int osz)"
      and o_off: "object_getattribute (c_obj other) ''offset'' = Inr (opt_int ooff)"
      and o_ts: "object_getattribute (c_obj other) ''totalSize'' = Inr ots"
  shows "\<exists>r. extend self (Container other) = Inr r
           \<and> c_items r = c_items self @ c_items other
           \<and> object_getattribute (c_obj r) ''size'' =
               Inr (PInt ((case ssz of Some n \<Rightarrow> n | None \<Rightarrow> int (length (c_items self))) +
                          (case osz of Some n \<Rightarrow> n | None \<Rightarrow> int (length (c_items other)))))
           \<and> object_getattribute (c_obj r) ''offset'' =
               Inr (opt_int (case soff of
                               None \<Rightarrow> ooff
                             | Some a \<Rightarrow> (case ooff of None \<Rightarrow> Some a | Some b \<Rightarrow> Some (min a b))))
           \<and> object_getattribute (c_obj r) ''totalSize'' = Inr (if ots \<noteq> PNone then ots else sts)
           \<and> (\<forall>k \<in> set provenance_keys.
                 object_getattribute (c_obj r) k =
                   (if isl (object_getattribute (c_obj self) k) \<or>
                       object_getattribute (c_obj self) k = Inr PNone
                    then (if isl (object_getattribute (c_obj other) k)
                          then object_getattribute (c_obj self) k
                          else object_getattribute (c_obj other) k)
                    else object_getattribute (c_obj self) k))"
proof -
  define ts where "ts = (if ots \<noteq> PNone then ots else sts)"
  define n where "n = (case ssz of Some n \<Rightarrow> n | None \<Rightarrow> int (length (c_items self))) +
                       (case osz of Some n \<Rightarrow> n | None \<Rightarrow> int (length (c_items other)))"
  define off where "off = opt_int (case soff of
                               None \<Rightarrow> ooff
                             | Some a \<Rightarrow> (case ooff of None \<Rightarrow> Some a | Some b \<Rightarrow> Some (min a b)))"
  define ob1 where "ob1 = setattr (c_obj self) ''totalSize'' ts"
  define ob2 where "ob2 = setattr ob1 ''size'' (PInt n)"
  define ob3 where "ob3 = setattr ob2 ''offset'' off"
  define r where "r = self\<lparr>c_items := c_items self @ c_items other,
                            c_obj := fold (fill_key (c_obj other)) provenance_keys ob3\<rparr>"
  have add: "py_add (if opt_int ssz \<noteq> PNone then opt_int ssz else PInt (int (length (c_items self))))
                    (if opt_int osz \<noteq> PNone then opt_int osz else PInt (int (length (c_items other))))
               = Inr (PInt n)"
    by (cases ssz; cases osz) (simp_all add: opt_int_def n_def py_add_ints)
  have off2: "object_getattribute ob2 ''offset'' = Inr (opt_int soff)"
    using s_off by (simp add: ob2_def ob1_def setattr_lookup_other)
  have mn: "(if opt_int soff \<noteq> PNone \<and> opt_int ooff \<noteq> PNone then py_min (opt_int soff) (opt_int ooff)
             else Inr (if opt_int soff \<noteq> PNone then opt_int soff else opt_int ooff)) = Inr off"
    by (cases soff; cases ooff) (simp_all add: opt_int_def off_def py_min_ints)
  have tsx: "(if ots \<noteq> PNone then Inr ots else object_getattribute (c_obj self) ''totalSize'') = Inr ts"
    by (simp add: ts_def s_ts)
  have ex: "extend self (Container other) = Inr r"
    by (simp add: extend_def ebind_def Let_def s_size o_ts tsx o_size add
        off2 [unfolded ob2_def ob1_def] o_off mn r_def ob3_def ob2_def ob1_def)
  have l_ts1: "object_getattribute ob1 ''totalSize'' = Inr ts"
    unfolding ob1_def by (rule setattr_lookup [OF s_ts]) (simp add: ts_def split: if_splits)
  have l_ts: "object_getattribute ob3 ''totalSize'' = Inr ts"
    using l_ts1 by (simp add: ob3_def ob2_def setattr_lookup_other)
  have sz1: "object_getattribute ob1 ''size'' = Inr (opt_int ssz)"
    using s_size by (simp add: ob1_def setattr_lookup_other)
  have l_sz2: "object_getattribute ob2 ''size'' = Inr (PInt n)"
    unfolding ob2_def by (rule setattr_lookup [OF sz1]) simp
  have l_sz: "object_getattribute ob3 ''size'' = Inr (PInt n)"
    using l_sz2 by (simp add: ob3_def setattr_lookup_other)
  have l_off: "object_getattribute ob3 ''offset'' = Inr off"
    unfolding ob3_def
    by (rule setattr_lookup [OF off2]) (cases soff; cases ooff; simp add: off_def opt_int_def)
  have np: "''size'' \<notin> set provenance_keys" "''offset'' \<notin> set provenance_keys"
           "''totalSize'' \<notin> set provenance_keys"
    by (simp_all add: provenance_keys_def)
  have same: "object_getattribute ob3 k = object_getattribute (c_obj self) k"
    if "k \<in> set provenance_keys" for k
    using counters_not_provenance [OF that]
    by (simp add: ob3_def ob2_def ob1_def setattr_lookup_other [OF not_sym])
  have prov: "\<forall>k \<in> set provenance_keys.
                 object_getattribute (c_obj r) k =
                   (if isl (object_getattribute (c_obj self) k) \<or>
                       object_getattribute (c_obj self) k = Inr PNone
                    then (if isl (object_getattribute (c_obj other) k)
                          then object_getattribute (c_obj self) k
                          else object_getattribute (c_obj other) k)
                    else object_getattribute (c_obj self) k)"
    using fold_fill_key [OF provenance_keys_distinct, of _ "c_obj other" ob3]
    by (simp add: r_def same)
  have "c_items r = c_items self @ c_items other" by (simp add: r_def)
  moreover have "object_getattribute (c_obj r) ''size'' = Inr (PInt n)"
    using l_sz np by (simp add: r_def fold_fill_key_other)
  moreover have "object_getattribute (c_obj r) ''offset'' = Inr off"
    using l_off np by (simp add: r_def fold_fill_key_other)
  moreover have "object_getattribute (c_obj r) ''totalSize'' = Inr ts"
    using l_ts np by (simp add: r_def fold_fill_key_other)
  ultimately show ?thesis
    using ex prov unfolding n_def off_def ts_def by blast
qed

lemma shelf_counters:
  "object_getattribute (c_obj shelf_a) ''size'' = Inr (opt_int None)"
  "object_getattribute (c_obj shelf_a) ''offset'' = Inr (opt_int (Some 20))"
  "object_getattribute (c_obj shelf_a) ''totalSize'' = Inr PNone"
  "object_getattribute (c_obj shelf_b) ''size'' = Inr (opt_int (Some 2))"
  "object_getattribute (c_obj shelf_b) ''offset'' = Inr (opt_int (Some 0))"
  "object_getattribute (c_obj shelf_b) ''totalSize'' = Inr (PInt 25)"
  by (simp_all add: shelf_a_def shelf_b_def object_getattribute_def opt_int_def)

lemma shelf_provenance:
  "object_getattribute (c_obj shelf_a) ''identifier'' = Inr (PStr ''com.plexapp.plugins.library'')"
  "object_getattribute (c_obj shelf_a) ''librarySectionID'' = Inr PNone"
  "object_getattribute (c_obj shelf_b) ''librarySectionID'' = Inr (PInt 1)"
  "c_items shelf_a = [cars]" "c_items shelf_b = [trailer, cars]"
  by (simp_all add: shelf_a_def shelf_b_def object_getattribute_def)

section \<open>Batch editing\<close>

lemma map_of_dict_update:
  "distinct (map fst kw) \<Longrightarrow> map_of (dict_update d kw) = map_of d ++ map_of kw"
proof (induction kw arbitrary: d)
  case Nil
  then show ?case by (simp add: dict_update_def)
next
  case (Cons p kw)
  obtain k v where p: "p = (k, v)" by (cases p)
  have nk: "map_of kw k = None" using Cons.prems by (simp add: p map_of_eq_None_iff)
  have "map_of (dict_update d (p # kw)) = map_of (dict_update (AList.update k v d) kw)"
    by (simp add: dict_update_def p)
  also have "\<dots> = map_of (AList.update k v d) ++ map_of kw"
    using Cons.IH [of "AList.update k v d"] Cons.prems by simp
  also have "\<dots> = map_of d ++ map_of (p # kw)"
    using nk by (auto simp: p update_conv' map_add_def fun_eq_iff split: option.splits)
  finally show ?case .
qed

lemma map_of_fold_dict_update:
  "\<forall>kw \<in> set kws. distinct (map fst kw) \<Longrightarrow>
   map_of (fold (\<lambda>kw d. dict_update d kw) kws d) = fold (\<lambda>kw m. m ++ map_of kw) kws (map_of d)"
  by (induction kws arbitrary: d) (simp_all add: map_of_dict_update)

lemma edits_batch:
  "py_dict (st_obj st) ''_edits'' = Some (PDict d) \<Longrightarrow>
   edits E kws st =
     (Inr (), st\<lparr>st_obj := (st_obj st)\<lparr>py_dict := (py_dict (st_obj st))(''_edits'' \<mapsto>
                   PDict (fold (\<lambda>kw d. dict_update d kw) kws d))\<rparr>\<rparr>)"
proof (induction kws arbitrary: st d)
  case Nil
  then have "(py_dict (st_obj st))(''_edits'' \<mapsto> PDict d) = py_dict (st_obj st)"
    by (simp add: fun_upd_idem)
  then show ?case by simp
next
  case (Cons kw kws)
  let ?st1 = "st\<lparr>st_obj := (st_obj st)\<lparr>py_dict := (py_dict (st_obj st))(''_edits'' \<mapsto> PDict (dict_update d kw))\<rparr>\<rparr>"
  have e: "edit E kw st = (Inr (), ?st1)"
    using Cons.prems by (simp add: edit_def object_getattribute_def)
  have "py_dict (st_obj ?st1) ''_edits'' = Some (PDict (dict_update d kw))" by simp
  from Cons.IH [OF this] show ?case using e by (simp cong: if_cong)
qed

lemma reload_keeps:
  assumes "reload E key b kw st = (r, st')"
      and "\<forall>d. a \<notin> fst ` set (loadData (py_class (st_obj st)) d)"
      and "a \<notin> set (cached_data_properties (py_class (st_obj st)))"
      and "a \<noteq> ''_data''" "a \<noteq> ''_initpath''" "a \<noteq> ''_overwriteNone''"
  shows "st_edits st' = st_edits st \<and> py_class (st_obj st') = py_class (st_obj st)
       \<and> py_dict (st_obj st') a = py_dict (st_obj st) a"
  using assms
  by (auto simp: reload_def Let_def py_dict_invalidateCacheAndLoadData_other
           split: sum.splits if_splits list.splits)

lemma getattribute_keeps:
  assumes "getattribute E attr st = (r, st')"
      and "\<forall>d. a \<notin> fst ` set (loadData (py_class (st_obj st)) d)"
      and "a \<notin> set (cached_data_properties (py_class (st_obj st)))"
      and "a \<noteq> ''_data''" "a \<noteq> ''_initpath''" "a \<noteq> ''_overwriteNone''"
  shows "st_edits st' = st_edits st \<and> py_class (st_obj st') = py_class (st_obj st)
       \<and> py_dict (st_obj st') a = py_dict (st_obj st) a"
proof (cases "getattribute E attr st = reload_and_read E attr st")
  case True
  obtain r1 st1 where rl: "reload E PNone False [] st = (r1, st1)" by (cases "reload E PNone False [] st")
  have "st' = st1" using True assms(1) rl by (auto simp: reload_and_read_def split: sum.splits)
  then show ?thesis using reload_keeps [OF rl assms(2-6)] by simp
next
  case False
  then have "st' = st" using assms(1)
    by (auto simp: getattribute_def split: sum.splits if_splits bool.splits)
  then show ?thesis by simp
qed

lemma with_type_keeps:
  assumes "with_type E kw st = (r, st')"
      and "\<forall>d. a \<notin> fst ` set (loadData (py_class (st_obj st)) d)"
      and "a \<notin> set (cached_data_properties (py_class (st_obj st)))"
      and "a \<noteq> ''_data''" "a \<noteq> ''_initpath''" "a \<noteq> ''_overwriteNone''"
  shows "st_edits st' = st_edits st \<and> py_class (st_obj st') = py_class (st_obj st)
       \<and> py_dict (st_obj st') a = py_dict (st_obj st) a
       \<and> (\<forall>kw1. r = Inr kw1 \<longrightarrow>
            (if ''type'' \<in> fst ` set kw then kw1 = kw else (\<exists>ty. kw1 = AList.update ''type'' ty kw)))"
proof (cases "''type'' \<in> fst ` set kw")
  case True
  then show ?thesis using assms(1) by (auto simp: with_type_def)
next
  case False
  obtain r1 st1 where g: "getattribute E ''TYPE'' st = (r1, st1)" by (cases "getattribute E ''TYPE'' st")
  have "st' = st1" using assms(1) False g by (auto simp: with_type_def split: sum.splits)
  moreover have "\<forall>kw1. r = Inr kw1 \<longrightarrow> (\<exists>ty. kw1 = AList.update ''type'' ty kw)"
    using assms(1) False g by (auto simp: with_type_def split: sum.splits)
  ultimately show ?thesis using getattribute_keeps [OF g assms(2-6)] False by simp
qed

lemma edit_immediate:
  assumes none: "py_dict (st_obj st) ''_edits'' = Some PNone"
      and loader: "\<forall>d. ''_edits'' \<notin> fst ` set (loadData (py_class (st_obj st)) d)"
      and cached: "''_edits'' \<notin> set (cached_data_properties (py_class (st_obj st)))"
  shows "py_dict (st_obj (snd (edit E kw st))) ''_edits'' = Some PNone
       \<and> (st_edits (snd (edit E kw st)) = st_edits st
          \<or> (\<exists>sec ty. st_edits (snd (edit E kw st)) =
                st_edits st @ [(sec, if ''type'' \<in> fst ` set kw then kw else AList.update ''type'' ty kw)]))
       \<and> (fst (edit E kw st) = Inr () \<longrightarrow>
            (\<exists>sec ty. st_edits (snd (edit E kw st)) =
                st_edits st @ [(sec, if ''type'' \<in> fst ` set kw then kw else AList.update ''type'' ty kw)]))"
proof -
  have ne: "''_edits'' \<noteq> ''_data''" "''_edits'' \<noteq> ''_initpath''" "''_edits'' \<noteq> ''_overwriteNone''"
    by simp_all
  have og: "object_getattribute (st_obj st) ''_edits'' = Inr PNone"
    using none by (rule object_getattribute_dict)
  obtain r1 st1 where w: "with_type E kw st = (r1, st1)" by (cases "with_type E kw st")
  note k1 = with_type_keeps [OF w loader cached ne]
  show ?thesis
  proof (cases r1)
    case (Inl e)
    then have "edit E kw st = (Inl e, st1)" using og w by (simp add: edit_def)
    then show ?thesis using k1 none by simp
  next
    case (Inr kw1)
    have kw1: "kw1 = (if ''type'' \<in> fst ` set kw then kw else kw1) \<and>
               (''type'' \<notin> fst ` set kw \<longrightarrow> (\<exists>ty. kw1 = AList.update ''type'' ty kw))"
      using k1 Inr by (auto split: if_splits)
    obtain r2 st2 where g: "getattribute E ''librarySectionID'' st1 = (r2, st2)"
      by (cases "getattribute E ''librarySectionID'' st1")
    have l1: "\<forall>d. ''_edits'' \<notin> fst ` set (loadData (py_class (st_obj st1)) d)"
      and c1: "''_edits'' \<notin> set (cached_data_properties (py_class (st_obj st1)))"
      using k1 loader cached by simp_all
    note k2 = getattribute_keeps [OF g l1 c1 ne]
    have keep: "st_edits st2 = st_edits st" "py_dict (st_obj st2) ''_edits'' = Some PNone"
      using k1 k2 none by simp_all
    have shape: "\<exists>ty. kw1 = (if ''type'' \<in> fst ` set kw then kw else AList.update ''type'' ty kw)"
      using k1 Inr by (auto split: if_splits)
    have e: "edit E kw st =
               (case r2 of Inl e \<Rightarrow> (Inl e, st2)
                | Inr lsid \<Rightarrow>
                    (case sectionByID E lsid of
                       Inl e \<Rightarrow> (Inl e, st2)
                     | Inr sec \<Rightarrow>
                         if ''items'' \<in> fst ` set kw1 then (Inl TypeError, st2)
                         else (case section_edit E sec kw1 of
                                 Some e \<Rightarrow> (Inl e, st2\<lparr>st_edits := st_edits st2 @ [(sec, kw1)]\<rparr>)
                               | None \<Rightarrow> (Inr (), st2\<lparr>st_edits := st_edits st2 @ [(sec, kw1)]\<rparr>))))"
      using og w Inr g by (simp add: edit_def Let_def split: sum.splits)
    from shape obtain ty where ty: "kw1 = (if ''type'' \<in> fst ` set kw then kw else AList.update ''type'' ty kw)"
      by blast
    show ?thesis
      unfolding e using keep ty
      by (auto split: sum.splits option.splits)
  qed
qed

lemma cars_state_fields:
  "st_obj cars_state = cars" "st_requests cars_state = []" "st_edits cars_state = []"
  by (simp_all add: cars_state_def)

lemma cars_section:
  "fst (getattribute E1 ''librarySectionID'' cars_state) = Inr (PInt 1)"
proof -
  have absent: "object_getattribute cars ''librarySectionID'' = Inr PNone"
    by (simp add: cars_def object_getattribute_def)
  have pub: "''librarySectionID'' \<notin> DONT_RELOAD_FOR_KEYS" "\<not> startswith ''librarySectionID'' ''_''"
    by (simp_all add: DONT_RELOAD_FOR_KEYS_def startswith_def)
  have tr: "truthy (py_or (PStr cars_details_key) (PStr ''/library/metadata/1''))"
    by (simp add: py_or_def cars_key_truthy)
  have ch: "children (Elem 3 ''MediaContainer'' [(''size'', ''1'')] [cars_details]) = cars_details # []"
    by simp
  note rl = reload_success [of cars_state, unfolded cars_state_fields,
      OF cars_attrs(1) cars_attrs(2) tr cars_request [unfolded cars_state_fields] ch, of False]
  have val: "object_getattribute
               (setattr (invalidateCacheAndLoadData
                  (setattr (setattr cars ''_initpath'' (py_or (PStr cars_details_key) (PStr ''/library/metadata/1'')))
                     ''_overwriteNone'' (PBool False)) cars_details)
                  ''_overwriteNone'' (PBool True)) ''librarySectionID'' = Inr (PInt 1)"
    by (simp add: cars_def setattr_rec invalidateCacheAndLoadData_def invalidateCachedProperties_def
        run_loadData_def Movie_def Movie_loadData_def cars_details_def cars_listing_def data_id_def
        object_getattribute_def startswith_def opt_str_def opt_int_def attrib_get_def
        decimal_int_opt_def decimal_int_def PlexObjectMeta_new_def py_or_def)
  show ?thesis
    using absent pub cars_partial cars_class cars_attrs(4) rl val
    by (simp add: getattribute_def reload_and_read_def cars_state_fields E1_fields)
qed

section \<open>Fetching a listing page by page\<close>













section \<open>Partial and full objects (claim C2)\<close>

text \<open>
  Claim C2, as amended: \<open>isFullObject()\<close> returns true if and only if the object's \<open>key\<close>
  is empty or \<open>None\<close>, or the resource path of the details path (\<open>_details_key\<close>, or
  \<open>key\<close> when that is empty) equals the resource path of \<open>_initpath\<close> and every query
  parameter of the details path is among those of \<open>_initpath\<close>. The status is a function
  of the three values \<open>key\<close>, \<open>_details_key\<close> and \<open>_initpath\<close>; no boolean is stored.
  The statement holds for any \<open>urlparse\<close> and \<open>parse_qsl\<close> that accept the two paths.
\<close>

theorem isFullObject_iff:
  assumes "object_getattribute ob ''_details_key'' = Inr dk"
      and "object_getattribute ob ''key'' = Inr key"
      and "object_getattribute ob ''_initpath'' = Inr ip"
      and "urlparse E (py_or dk key) = Inr parsed_key"
      and "urlparse E ip = Inr parsed_initpath"
  shows "isFullObject E ob =
           Inr (\<not> truthy key \<or>
                (fst parsed_key = fst parsed_initpath \<and>
                 set (parse_qsl E (snd parsed_key)) \<subseteq> set (parse_qsl E (snd parsed_initpath))))"
  using assms by (cases "truthy dk") (simp_all add: isFullObject_def ebind_def py_or_def Let_def)

text \<open>At the movie \<open>cars\<close>, listed by its library section: its details path and its
  constructing path differ, so it is partial.\<close>

theorem isFullObject_iff_witness: "isFullObject E0 cars = Inr False"
proof -
  have k: "urlparse E0 (py_or (PStr cars_details_key) (PStr ''/library/metadata/1'')) =
     Inr (''/library/metadata/1'',
          ''includeBandwidths=1&includeChapters=1&includeFields=thumbBlurHash%2CartBlurHash&includeGeolocation=1&includeLoudnessRamps=1&includeMarkers=1'')"
    by (simp add: py_or_def cars_urls cars_key_truthy)
  show ?thesis
    using isFullObject_iff [OF cars_attrs(1) cars_attrs(2) cars_attrs(3) k cars_urls(2)]
    by simp
qed

text \<open>
  The claim as stated, without the guard on \<open>key\<close>, fails at an object without a key:
  \<open>trailer\<close> was built from the listing \<open>/hubs\<close>, its details path is \<open>None\<close>, whose
  resource path is empty and differs from \<open>/hubs\<close>, and \<open>isFullObject\<close> returns true.
\<close>

theorem isFullObject_keyless_counterexample:
  "isFullObject E0 trailer = Inr True \<and>
   object_getattribute trailer ''_details_key'' = Inr PNone \<and>
   object_getattribute trailer ''key'' = Inr PNone \<and>
   object_getattribute trailer ''_initpath'' = Inr (PStr ''/hubs'') \<and>
   urlparse E0 (py_or PNone PNone) = Inr ([], []) \<and>
   urlparse E0 (PStr ''/hubs'') = Inr (''/hubs'', [])"
  by (simp add: isFullObject_def ebind_def trailer_def object_getattribute_def E0_def
      simple_urlparse_def py_or_def Movie_def PlexPartialObject_attrs_def PlexObject_attrs_def)

section \<open>Cache invalidation on reload (claim C5)\<close>

text \<open>
  Claim C5: \<open>_invalidateCacheAndLoadData\<close> replaces the backing node; a name \<open>p\<close> that
  the class registers as a cached data property, itself or through a base class
  (\<open>PlexObjectMeta.__new__\<close> unions them), is deleted from the instance when the new node
  is another instance than the old one, and keeps its memoized value when it is the same
  instance. The population routine is taken not to assign \<open>p\<close> or \<open>_data\<close> itself, and
  \<open>_data\<close> not to be the name of a cached property.
\<close>

theorem invalidateCacheAndLoadData_cache:
  assumes reg: "cached_data_properties (py_class ob) = PlexObjectMeta_new bases attrs"
      and p: "(p, True) \<in> set attrs \<or> (\<exists>ps. Some ps \<in> set bases \<and> p \<in> set ps)"
      and ld: "p \<notin> fst ` set (loadData (py_class ob) data)"
              "''_data'' \<notin> fst ` set (loadData (py_class ob) data)"
      and np: "p \<noteq> ''_data''" "''_data'' \<notin> set (cached_data_properties (py_class ob))"
  shows "py_dict (invalidateCacheAndLoadData ob data) ''_data'' = Some (PElem data) \<and>
         py_dict (invalidateCacheAndLoadData ob data) p =
           (if data_id ob = IdElem (eid data) then py_dict ob p else None)"
proof -
  have mem: "p \<in> set (cached_data_properties (py_class ob))"
    using p unfolding reg set_PlexObjectMeta_new by (force split: option.splits)
  have priv: "startswith ''_data'' ''_''" by (simp add: startswith_def)
  have "py_dict (invalidateCacheAndLoadData ob data) ''_data'' = Some (PElem data)"
    using ld(2) priv np
    by (simp add: invalidateCacheAndLoadData_def Let_def py_dict_run_loadData_other
        py_dict_invalidateCachedProperties py_dict_setattr_stored)
  moreover have "py_dict (invalidateCacheAndLoadData ob data) p =
           (if data_id ob = IdElem (eid data) then py_dict ob p else None)"
    using ld(1) mem np(1)
    by (simp add: invalidateCacheAndLoadData_def Let_def py_dict_run_loadData_other
        py_dict_invalidateCachedProperties)
  ultimately show ?thesis by simp
qed

text \<open>At \<open>cars\<close> with a memoized \<open>genres\<close>: loading the details element (another node)
  deletes it, loading the listing element again (the same node) keeps it.\<close>

theorem invalidateCacheAndLoadData_cache_witness:
  "py_dict (invalidateCacheAndLoadData cars_with_genres cars_details) ''genres'' = None
   \<and> py_dict (invalidateCacheAndLoadData cars_with_genres cars_details) ''_data'' = Some (PElem cars_details)
   \<and> py_dict (invalidateCacheAndLoadData cars_with_genres cars_listing) ''genres'' = Some (PList [PRef 7])"
proof -
  have reg: "cached_data_properties (py_class cars_with_genres) =
               PlexObjectMeta_new [Some []] [(''genres'', True), (''_loadData'', False)]"
    by (simp add: genres_facts Movie_def)
  have a: "py_dict (invalidateCacheAndLoadData cars_with_genres cars_details) ''_data'' = Some (PElem cars_details) \<and>
           py_dict (invalidateCacheAndLoadData cars_with_genres cars_details) ''genres'' = None"
    using invalidateCacheAndLoadData_cache [OF reg, of "''genres''" cars_details]
    by (simp add: genres_facts cars_class cars_details_loads cars_details_def)
  have b: "py_dict (invalidateCacheAndLoadData cars_with_genres cars_listing) ''genres'' = Some (PList [PRef 7])"
    using invalidateCacheAndLoadData_cache [OF reg, of "''genres''" cars_listing]
    by (simp add: genres_facts cars_class cars_details_loads cars_listing_def)
  show ?thesis using a b by simp
qed

section \<open>Assignment of \<open>None\<close> (claim C6)\<close>

text \<open>
  Claim C6, as amended: assigning a value that is not \<open>None\<close>, or assigning to an
  underscore-prefixed or not-yet-set attribute, or assigning while \<open>_overwriteNone\<close> is
  true, stores the value; assigning \<open>None\<close> to a non-underscore attribute that is already
  set leaves the object unchanged when \<open>_overwriteNone\<close> is false. The flag is true after
  construction and after every reload that completes, whatever its key and parameters.
  While a reload populates the object the flag has the value of the reload's
  \<open>_overwriteNone\<close> argument: a field \<open>a\<close> that holds \<open>w\<close> and that the server's answer no
  longer reports becomes \<open>None\<close> in a reload called with \<open>True\<close> (an explicit \<open>reload()\<close>)
  and keeps \<open>w\<close> in a reload called with \<open>False\<close> (the reload that attribute access
  triggers). Here \<open>d\<close> is the first child of the server's answer to the request the
  reload has sent, and the population routine is taken not to assign \<open>_overwriteNone\<close>.
\<close>

theorem setattr_None_policy:
  assumes a: "\<not> startswith a ''_''" "py_dict (st_obj st) a = Some w"
      and cached: "a \<notin> set (cached_data_properties (py_class (st_obj st)))"
                  "''_overwriteNone'' \<notin> set (cached_data_properties (py_class (st_obj st)))"
      and rl: "reload E key b kwargs st = (Inr (), st')"
      and srv: "query E (st_requests st) (last (st_requests st')) = Inr resp"
               "children resp = d # ds"
      and ld: "a \<in> fst ` set (loadData (py_class (st_obj st)) d)"
              "\<forall>v. (a, v) \<in> set (loadData (py_class (st_obj st)) d) \<longrightarrow> v = PNone"
              "\<forall>d. ''_overwriteNone'' \<notin> fst ` set (loadData (py_class (st_obj st)) d)"
  shows "(v \<noteq> PNone \<or> startswith x ''_'' \<or> py_dict ob x = None \<or>
            truthy (case py_dict ob ''_overwriteNone'' of Some f \<Rightarrow> f | None \<Rightarrow> PNone)
          \<longrightarrow> py_dict (setattr ob x v) x = Some v)
       \<and> (\<not> startswith x ''_'' \<and> py_dict ob x \<noteq> None \<and>
            \<not> truthy (case py_dict ob ''_overwriteNone'' of Some f \<Rightarrow> f | None \<Rightarrow> PNone)
          \<longrightarrow> setattr ob x PNone = ob)
       \<and> (PlexObject_init E (py_class (st_obj st)) server data initpath parent = Inr ob0
          \<longrightarrow> py_dict ob0 ''_overwriteNone'' = Some (PBool True))
       \<and> (fst (reload E key' b' kwargs' s) = Inr ()
          \<longrightarrow> py_dict (st_obj (snd (reload E key' b' kwargs' s))) ''_overwriteNone'' = Some (PBool True))
       \<and> py_dict (st_obj st') a = (if b then Some PNone else Some w)"
proof -
  from reload_completed [OF rl] obtain k resp' d' ds' where
      rq: "st_requests st' = st_requests st @ [\<lparr>req_key = k, req_headers = [], req_params = PNone\<rparr>]"
      and q: "query E (st_requests st) \<lparr>req_key = k, req_headers = [], req_params = PNone\<rparr> = Inr resp'"
      and ch: "children resp' = d' # ds'"
      and ob': "st_obj st' = setattr (invalidateCacheAndLoadData
                                   (setattr (setattr (st_obj st) ''_initpath'' k) ''_overwriteNone'' (PBool b)) d')
                                ''_overwriteNone'' (PBool True)"
    by blast
  have "resp' = resp" using srv(1) q by (simp add: rq)
  then have dd: "d' = d" using srv(2) ch by simp
  define o2 where "o2 = setattr (setattr (st_obj st) ''_initpath'' k) ''_overwriteNone'' (PBool b)"
  define o3 where "o3 = (if IdElem (eid d) \<noteq> data_id o2
                         then invalidateCachedProperties (setattr o2 ''_data'' (PElem d))
                         else setattr o2 ''_data'' (PElem d))"
  have c2: "py_class o2 = py_class (st_obj st)" by (simp add: o2_def)
  have c3: "py_class o3 = py_class (st_obj st)" by (simp add: o3_def c2)
  have na: "a \<noteq> ''_initpath''" "a \<noteq> ''_overwriteNone''" "a \<noteq> ''_data''"
    using a(1) by (auto simp: startswith_def)
  have f2: "py_dict o2 ''_overwriteNone'' = Some (PBool b)"
    by (simp add: o2_def py_dict_setattr_stored)
  have f3: "py_dict o3 ''_overwriteNone'' = Some (PBool b)"
    using f2 cached(2) by (simp add: o3_def py_dict_invalidateCachedProperties c2)
  have a3: "py_dict o3 a = Some w"
    using a(2) na cached(1) by (simp add: o3_def o2_def py_dict_invalidateCachedProperties)
  have il: "invalidateCacheAndLoadData o2 d = run_loadData o3 d"
    by (simp add: invalidateCacheAndLoadData_def Let_def o3_def)
  have r: "py_dict (run_loadData o3 d) a = (if b then Some PNone else Some w)"
    using run_loadData_None [OF f3 _ a(1) a3] ld by (simp add: c3)
  have s1: "v \<noteq> PNone \<or> startswith x ''_'' \<or> py_dict ob x = None \<or>
            truthy (case py_dict ob ''_overwriteNone'' of Some f \<Rightarrow> f | None \<Rightarrow> PNone)
          \<longrightarrow> py_dict (setattr ob x v) x = Some v"
    by (simp add: setattr_def Let_def)
  have s2: "\<not> startswith x ''_'' \<and> py_dict ob x \<noteq> None \<and>
            \<not> truthy (case py_dict ob ''_overwriteNone'' of Some f \<Rightarrow> f | None \<Rightarrow> PNone)
          \<longrightarrow> setattr ob x PNone = ob"
    by (simp add: setattr_def Let_def)
  have s3: "PlexObject_init E (py_class (st_obj st)) server data initpath parent = Inr ob0
          \<longrightarrow> py_dict ob0 ''_overwriteNone'' = Some (PBool True)"
    using init_flag [of E "py_class (st_obj st)" server data initpath parent ob0] ld(3) by blast
  have s4: "fst (reload E key' b' kwargs' s) = Inr ()
          \<longrightarrow> py_dict (st_obj (snd (reload E key' b' kwargs' s))) ''_overwriteNone'' = Some (PBool True)"
  proof
    assume "fst (reload E key' b' kwargs' s) = Inr ()"
    then have "reload E key' b' kwargs' s = (Inr (), snd (reload E key' b' kwargs' s))"
      by (metis prod.collapse)
    from reload_completed [OF this]
    show "py_dict (st_obj (snd (reload E key' b' kwargs' s))) ''_overwriteNone'' = Some (PBool True)"
      by (auto simp: py_dict_setattr_stored)
  qed
  have s5: "py_dict (st_obj st') a = (if b then Some PNone else Some w)"
    using r na(2) by (simp add: ob' dd o2_def [symmetric] il)
  show ?thesis using s1 s2 s3 s4 s5 by blast
qed

text \<open>At \<open>cars\<close> with a locally edited summary, which the server does not report: an
  explicit reload sets it to \<open>None\<close>, an automatic reload keeps it, and the flag is true
  after both.\<close>

theorem setattr_None_policy_witness:
  "py_dict (st_obj (snd (reload E1 PNone True [] cars_edited))) ''summary'' = Some PNone
   \<and> py_dict (st_obj (snd (reload E1 PNone False [] cars_edited))) ''summary'' = Some (PStr ''My notes'')
   \<and> fst (reload E1 PNone False [] cars_edited) = Inr ()
   \<and> py_dict (st_obj (snd (reload E1 PNone False [] cars_edited))) ''_overwriteNone'' = Some (PBool True)
   \<and> py_dict (setattr cars ''title'' (PStr ''Cars 2'')) ''title'' = Some (PStr ''Cars 2'')"
proof -
  let ?req = "\<lparr>req_key = py_or (PStr cars_details_key) (PStr ''/library/metadata/1''),
         req_headers = [], req_params = PNone\<rparr>"
  let ?resp = "Elem 3 ''MediaContainer'' [(''size'', ''1'')] [cars_details]"
  have K: "truthy (py_or (PStr cars_details_key) (PStr ''/library/metadata/1''))"
    by (simp add: py_or_def cars_key_truthy)
  have srv: "query E1 (st_requests cars_edited) ?req = Inr ?resp"
    by (simp add: py_or_def cars_key_truthy E1_fields)
  have ch: "children ?resp = cars_details # []"
    by simp
  note completed = reload_success [OF edited_facts(3) edited_facts(4) K srv ch]
  have rl: "reload E1 PNone b [] cars_edited = (Inr (), snd (reload E1 PNone b [] cars_edited))" for b
    using completed [of b] by simp
  have lastreq: "last (st_requests (snd (reload E1 PNone b [] cars_edited))) = ?req" for b
    using completed [of b] by simp
  have srv': "query E1 (st_requests cars_edited) (last (st_requests (snd (reload E1 PNone b [] cars_edited)))) = Inr ?resp" for b
    using srv by (simp only: lastreq)
  have ok: "fst (reload E1 PNone False [] cars_edited) = Inr ()"
    using completed [of False] by simp
  have pub: "\<not> startswith ''summary'' ''_''" by (rule public_names)
  have c1: "''summary'' \<notin> set (cached_data_properties (py_class (st_obj cars_edited)))"
    by (simp add: edited_facts cars_class)
  have c2: "''_overwriteNone'' \<notin> set (cached_data_properties (py_class (st_obj cars_edited)))"
    by (simp add: edited_facts cars_class)
  have l1: "''summary'' \<in> fst ` set (loadData (py_class (st_obj cars_edited)) cars_details)"
    by (simp add: edited_facts cars_class cars_details_loads)
  have l2: "\<forall>v. (''summary'', v) \<in> set (loadData (py_class (st_obj cars_edited)) cars_details) \<longrightarrow> v = PNone"
    using summary_absent by (simp add: edited_facts cars_class)
  have l3: "\<forall>d. ''_overwriteNone'' \<notin> fst ` set (loadData (py_class (st_obj cars_edited)) d)"
    by (simp add: edited_facts cars_class cars_details_loads)
  note th = setattr_None_policy [OF pub edited_facts(5) c1 c2 rl srv' ch l1 l2 l3]
  have t1: "py_dict (st_obj (snd (reload E1 PNone True [] cars_edited))) ''summary'' = Some PNone"
    using th [where b = True, THEN conjunct2, THEN conjunct2, THEN conjunct2, THEN conjunct2] by simp
  have t2: "py_dict (st_obj (snd (reload E1 PNone False [] cars_edited))) ''summary'' = Some (PStr ''My notes'')"
    using th [where b = False, THEN conjunct2, THEN conjunct2, THEN conjunct2, THEN conjunct2] by simp
  have t3: "py_dict (st_obj (snd (reload E1 PNone False [] cars_edited))) ''_overwriteNone'' = Some (PBool True)"
    using th [where b = False and key' = PNone and b' = False and kwargs' = "[]" and s = cars_edited,
        THEN conjunct2, THEN conjunct2, THEN conjunct2, THEN conjunct1] ok by blast
  have t4: "py_dict (setattr cars ''title'' (PStr ''Cars 2'')) ''title'' = Some (PStr ''Cars 2'')"
    using th [where b = False and v = "PStr ''Cars 2''" and x = "''title''" and ob = cars, THEN conjunct1] by simp
  from t1 t2 ok t3 t4 show ?thesis by blast
qed

text \<open>
  The claim as stated lets \<open>None\<close> overwrite only during an explicit reload. On \<open>cars\<close>,
  as \<open>__init__\<close> has built it and with no reload under way, assigning \<open>None\<close> to the
  already set \<open>title\<close> overwrites it.
\<close>

theorem setattr_None_counterexample:
  "PlexObject_init E0 Movie (PRef 0) (Some cars_listing) (PStr ''/library/sections/1/all'') PNone = Inr cars \<and>
   py_dict cars ''title'' = Some (PStr ''Cars'') \<and>
   py_dict (setattr cars ''title'' PNone) ''title'' = Some PNone"
  by (simp add: cars_constructed) (simp add: cars_def setattr_def)

section \<open>Reload on attribute access (claims C1 and C10)\<close>

text \<open>
  Claim C1: on a partial object that reloads automatically and is no session or history
  entry, reading a public, non-exempt attribute whose value is \<open>None\<close> sends exactly one
  request, for the details path (\<open>_details_key\<close>, or \<open>key\<close> when that is empty), and
  returns the value the attribute has after the reload: the last value other than
  \<open>None\<close> that the population routine assigns to it from the first child \<open>d\<close> of the
  server's answer, and \<open>None\<close> when it assigns no such value. Reading the attribute again
  returns the same result and leaves the state, and so the list of requests, unchanged.
  The server is taken to answer the request with an element that has a child; the
  population routine not to assign \<open>_details_key\<close>, \<open>_initpath\<close> or \<open>_overwriteNone\<close> (nor
  \<open>key\<close>, when \<open>_details_key\<close> is empty); and neither the attribute read nor
  \<open>_details_key\<close>, \<open>_initpath\<close> or \<open>key\<close> to be the name of a cached property.
\<close>

theorem getattribute_reloads_once:
  assumes public: "attr \<notin> DONT_RELOAD_FOR_KEYS" "attr \<notin> USER_DONT_RELOAD_FOR_KEYS E"
                  "\<not> startswith attr ''_''"
      and absent: "object_getattribute (st_obj st) attr = Inr PNone"
      and partial: "isFullObject E (st_obj st) = Inr False"
      and cls: "\<not> is_session_or_history (py_class (st_obj st))"
      and auto: "object_getattribute (st_obj st) ''_autoReload'' = Inr ar" "ar \<noteq> PBool False"
      and dk: "object_getattribute (st_obj st) ''_details_key'' = Inr dk"
      and key: "object_getattribute (st_obj st) ''key'' = Inr key"
      and srv: "query E (st_requests st)
                  \<lparr>req_key = py_or dk key, req_headers = [], req_params = PNone\<rparr> = Inr resp"
               "children resp = d # ds"
      and loader: "''_details_key'' \<notin> fst ` set (loadData (py_class (st_obj st)) d)"
                  "''_initpath'' \<notin> fst ` set (loadData (py_class (st_obj st)) d)"
                  "truthy dk \<or> ''key'' \<notin> fst ` set (loadData (py_class (st_obj st)) d)"
                  "''_overwriteNone'' \<notin> fst ` set (loadData (py_class (st_obj st)) d)"
      and cached: "''_details_key'' \<notin> set (cached_data_properties (py_class (st_obj st)))"
                  "''_initpath'' \<notin> set (cached_data_properties (py_class (st_obj st)))"
                  "''key'' \<notin> set (cached_data_properties (py_class (st_obj st)))"
                  "attr \<notin> set (cached_data_properties (py_class (st_obj st)))"
  shows "fst (getattribute E attr st) =
           Inr (case filter (\<lambda>v. v \<noteq> PNone)
                       (map snd (filter (\<lambda>p. fst p = attr) (loadData (py_class (st_obj st)) d))) of
                  [] \<Rightarrow> PNone | v # vs \<Rightarrow> last (v # vs))
       \<and> fst (getattribute E attr st) =
           object_getattribute (st_obj (snd (getattribute E attr st))) attr
       \<and> st_requests (snd (getattribute E attr st)) =
           st_requests st @ [\<lparr>req_key = py_or dk key, req_headers = [], req_params = PNone\<rparr>]
       \<and> getattribute E attr (snd (getattribute E attr st)) = getattribute E attr st"
proof -
  define ob where "ob = st_obj st"
  define K where "K = py_or dk key"
  define rq where "rq = \<lparr>req_key = K, req_headers = [], req_params = PNone\<rparr>"
  define o2 where "o2 = setattr (setattr ob ''_initpath'' K) ''_overwriteNone'' (PBool False)"
  define ob' where "ob' = setattr (invalidateCacheAndLoadData o2 d) ''_overwriteNone'' (PBool True)"
  define st' where "st' = st\<lparr>st_obj := ob', st_requests := st_requests st @ [rq]\<rparr>"
  from isFullObject_False [OF dk key partial]
  obtain pk where tk: "truthy key" and pk: "urlparse E K = Inr pk" by (auto simp: K_def)
  have tK: "truthy K" using tk by (simp add: K_def py_or_def)
  have rl: "reload E PNone False [] st = (Inr (), st')"
    using reload_success [OF dk key tK [unfolded K_def] srv, of False]
    by (simp add: st'_def ob'_def o2_def ob_def rq_def K_def)
  have first: "getattribute E attr st = (object_getattribute ob' attr, st')"
    using public absent partial cls auto rl
    by (simp add: getattribute_def reload_and_read_def st'_def)
  have c2: "py_class o2 = py_class ob" by (simp add: o2_def)
  have c': "py_class ob' = py_class ob" by (simp add: ob'_def c2)
  have ip2: "py_dict o2 ''_initpath'' = Some K"
    by (simp add: o2_def py_dict_setattr_stored)
  have ip': "py_dict ob' ''_initpath'' = Some K"
    using loader(2) cached(2) ip2
    by (simp add: ob'_def py_dict_invalidateCacheAndLoadData_other c2 ob_def)
  have dk2: "py_dict o2 ''_details_key'' = py_dict ob ''_details_key''"
    by (simp add: o2_def)
  have dk': "object_getattribute ob' ''_details_key'' = Inr dk"
  proof -
    have "py_dict ob' ''_details_key'' = py_dict ob ''_details_key''"
      using loader(1) cached(1) dk2
      by (simp add: ob'_def py_dict_invalidateCacheAndLoadData_other c2 ob_def)
    then show ?thesis using dk c' object_getattribute_cong [of ob' "''_details_key''" ob]
      by (simp add: ob_def)
  qed
  have kgrow: "py_dict ob ''key'' \<noteq> None \<Longrightarrow> py_dict ob' ''key'' \<noteq> None"
  proof -
    assume "py_dict ob ''key'' \<noteq> None"
    then have "py_dict o2 ''key'' \<noteq> None" by (simp add: o2_def)
    then have "py_dict (invalidateCacheAndLoadData o2 d) ''key'' \<noteq> None"
      using cached(3) by (intro invalidateCacheAndLoadData_grows) (simp_all add: c2 ob_def)
    then show ?thesis by (simp add: ob'_def)
  qed
  from object_getattribute_grows [OF key [folded ob_def] c' kgrow]
  obtain key' where key': "object_getattribute ob' ''key'' = Inr key'" by auto
  have samekey: "truthy dk \<or> key' = key"
  proof (cases "truthy dk")
    case True
    then show ?thesis by simp
  next
    case False
    then have nl: "''key'' \<notin> fst ` set (loadData (py_class o2) d)"
      using loader(3) by (simp add: c2 ob_def)
    have "py_dict ob' ''key'' = py_dict ob ''key''"
      using nl cached(3)
      by (simp add: ob'_def py_dict_invalidateCacheAndLoadData_other c2 ob_def o2_def)
    then have "object_getattribute ob' ''key'' = object_getattribute ob ''key''"
      using c' by (rule object_getattribute_cong)
    then show ?thesis using key key' by (simp add: ob_def)
  qed
  have full: "isFullObject E ob' = Inr True"
    using isFullObject_same_path [OF dk' key' object_getattribute_dict [OF ip'] samekey _ pk]
    by (simp add: K_def)
  have second: "getattribute E attr st' = (object_getattribute ob' attr, st')"
    using getattribute_full [of E st' attr] full by (simp add: st'_def)
  have na: "attr \<noteq> ''_initpath''" "attr \<noteq> ''_overwriteNone''"
    using public(3) by (auto simp: startswith_def)
  have f2: "py_dict o2 ''_overwriteNone'' = Some (PBool False)"
    by (simp add: o2_def py_dict_setattr_stored)
  have a2: "object_getattribute o2 attr = Inr PNone"
  proof -
    have "py_dict o2 attr = py_dict ob attr" using na by (simp add: o2_def)
    from object_getattribute_cong [OF this c2] show ?thesis using absent by (simp add: ob_def)
  qed
  have loaded: "object_getattribute (invalidateCacheAndLoadData o2 d) attr =
      Inr (case filter (\<lambda>v. v \<noteq> PNone)
                  (map snd (filter (\<lambda>p. fst p = attr) (loadData (py_class (st_obj st)) d))) of
             [] \<Rightarrow> PNone | v # vs \<Rightarrow> last (v # vs))"
    using invalidateCacheAndLoadData_loaded [OF public(3) _ _ f2 a2, of d] loader(4) cached(4)
    by (simp add: c2 ob_def)
  have "py_dict ob' attr = py_dict (invalidateCacheAndLoadData o2 d) attr"
    using na by (simp add: ob'_def)
  then have "object_getattribute ob' attr = object_getattribute (invalidateCacheAndLoadData o2 d) attr"
    by (rule object_getattribute_cong) (simp add: ob'_def)
  then have loaded_attr: "object_getattribute ob' attr =
      Inr (case filter (\<lambda>v. v \<noteq> PNone)
                  (map snd (filter (\<lambda>p. fst p = attr) (loadData (py_class (st_obj st)) d))) of
             [] \<Rightarrow> PNone | v # vs \<Rightarrow> last (v # vs))"
    using loaded by simp
  show ?thesis
    using first second loaded_attr by (simp add: st'_def rq_def K_def)
qed

text \<open>At \<open>cars\<close>, whose \<open>librarySectionID\<close> is \<open>None\<close> in the listing and \<open>1\<close> in the
  server's answer for the details path.\<close>

theorem getattribute_reloads_once_witness:
  "fst (getattribute E1 ''librarySectionID'' cars_state) = Inr (PInt 1)
   \<and> fst (getattribute E1 ''librarySectionID'' cars_state) =
       object_getattribute (st_obj (snd (getattribute E1 ''librarySectionID'' cars_state))) ''librarySectionID''
   \<and> st_requests (snd (getattribute E1 ''librarySectionID'' cars_state)) =
       [\<lparr>req_key = PStr cars_details_key, req_headers = [], req_params = PNone\<rparr>]
   \<and> getattribute E1 ''librarySectionID'' (snd (getattribute E1 ''librarySectionID'' cars_state)) =
       getattribute E1 ''librarySectionID'' cars_state"
proof -
  have st: "st_obj cars_state = cars" "st_requests cars_state = []"
    by (simp_all add: cars_state_def)
  have u: "''librarySectionID'' \<notin> USER_DONT_RELOAD_FOR_KEYS E1" by (simp add: E1_fields)
  have absent: "object_getattribute (st_obj cars_state) ''librarySectionID'' = Inr PNone"
    and partial: "isFullObject E1 (st_obj cars_state) = Inr False"
    and cls: "\<not> is_session_or_history (py_class (st_obj cars_state))"
    and auto: "object_getattribute (st_obj cars_state) ''_autoReload'' = Inr (PBool True)"
              "PBool True \<noteq> PBool False"
    and dk: "object_getattribute (st_obj cars_state) ''_details_key'' = Inr (PStr cars_details_key)"
    and key: "object_getattribute (st_obj cars_state) ''key'' = Inr (PStr ''/library/metadata/1'')"
    by (simp_all add: st section_public cars_attrs cars_partial cars_class)
  have ch: "children (Elem 3 ''MediaContainer'' [(''size'', ''1'')] [cars_details]) = cars_details # []"
    by simp
  have loader: "''_details_key'' \<notin> fst ` set (loadData (py_class (st_obj cars_state)) cars_details)"
      "''_initpath'' \<notin> fst ` set (loadData (py_class (st_obj cars_state)) cars_details)"
      "truthy (PStr cars_details_key) \<or> ''key'' \<notin> fst ` set (loadData (py_class (st_obj cars_state)) cars_details)"
      "''_overwriteNone'' \<notin> fst ` set (loadData (py_class (st_obj cars_state)) cars_details)"
    by (simp_all add: st cars_class cars_details_loads cars_key_truthy)
  have cached: "''_details_key'' \<notin> set (cached_data_properties (py_class (st_obj cars_state)))"
      "''_initpath'' \<notin> set (cached_data_properties (py_class (st_obj cars_state)))"
      "''key'' \<notin> set (cached_data_properties (py_class (st_obj cars_state)))"
      "''librarySectionID'' \<notin> set (cached_data_properties (py_class (st_obj cars_state)))"
    by (simp_all add: st cars_class)
  have K: "py_or (PStr cars_details_key) (PStr ''/library/metadata/1'') = PStr cars_details_key"
    by (simp add: py_or_def cars_key_truthy)
  note th = getattribute_reloads_once [OF section_public(1) u section_public(2) absent partial cls auto dk key
      cars_request ch loader cached]
  have a: "fst (getattribute E1 ''librarySectionID'' cars_state) = Inr (PInt 1)"
    using th [THEN conjunct1] by (simp add: st cars_class section_loaded)
  note b = th [THEN conjunct2, THEN conjunct1]
  have c: "st_requests (snd (getattribute E1 ''librarySectionID'' cars_state)) =
       [\<lparr>req_key = PStr cars_details_key, req_headers = [], req_params = PNone\<rparr>]"
    using th [THEN conjunct2, THEN conjunct2, THEN conjunct1] by (simp add: st K)
  note d = th [THEN conjunct2, THEN conjunct2, THEN conjunct2]
  from a b c d show ?thesis by blast
qed

text \<open>
  Claim C10: under the same conditions, an attribute whose value is the empty list
  takes the path an attribute whose value is \<open>None\<close> takes, the reload followed by a second read,
  and the request for the details path is sent; an attribute with any other value is
  returned as it is and the state is unchanged.
\<close>

theorem getattribute_empty_list:
  assumes public: "attr \<notin> DONT_RELOAD_FOR_KEYS" "attr \<notin> USER_DONT_RELOAD_FOR_KEYS E"
                  "\<not> startswith attr ''_''"
      and val: "object_getattribute (st_obj st) attr = Inr v"
      and partial: "isFullObject E (st_obj st) = Inr False"
      and cls: "\<not> is_session_or_history (py_class (st_obj st))"
      and auto: "object_getattribute (st_obj st) ''_autoReload'' = Inr ar" "ar \<noteq> PBool False"
      and dk: "object_getattribute (st_obj st) ''_details_key'' = Inr dk"
      and key: "object_getattribute (st_obj st) ''key'' = Inr key"
  shows "(v = PList [] \<or> v = PNone \<longrightarrow>
            getattribute E attr st = reload_and_read E attr st \<and>
            st_requests (snd (getattribute E attr st)) =
              st_requests st @ [\<lparr>req_key = py_or dk key, req_headers = [], req_params = PNone\<rparr>])
       \<and> (v \<noteq> PList [] \<and> v \<noteq> PNone \<longrightarrow> getattribute E attr st = (Inr v, st))"
proof -
  from isFullObject_False [OF dk key partial] have tk: "truthy key" by simp
  then have tK: "truthy (py_or dk key)" by (simp add: py_or_def)
  have rq: "st_requests (snd (reload_and_read E attr st)) =
              st_requests st @ [\<lparr>req_key = py_or dk key, req_headers = [], req_params = PNone\<rparr>]"
    using reload_requests [OF dk key tK, of E False]
    by (cases "reload E PNone False [] st") (auto simp: reload_and_read_def split: sum.splits)
  show ?thesis
    using public val partial cls auto rq by (auto simp: getattribute_def)
qed

text \<open>At \<open>cars\<close>: \<open>roles\<close> is the empty list, \<open>title\<close> is set.\<close>

theorem getattribute_empty_list_witness:
  "getattribute E1 ''roles'' cars_state = reload_and_read E1 ''roles'' cars_state
   \<and> st_requests (snd (getattribute E1 ''roles'' cars_state)) =
       [\<lparr>req_key = PStr cars_details_key, req_headers = [], req_params = PNone\<rparr>]
   \<and> getattribute E1 ''title'' cars_state = (Inr (PStr ''Cars''), cars_state)"
proof -
  have st: "st_obj cars_state = cars" "st_requests cars_state = []"
    by (simp_all add: cars_state_def)
  have u: "''roles'' \<notin> USER_DONT_RELOAD_FOR_KEYS E1" "''title'' \<notin> USER_DONT_RELOAD_FOR_KEYS E1"
    by (simp_all add: E1_fields)
  have roles: "object_getattribute (st_obj cars_state) ''roles'' = Inr (PList [])"
    and title: "object_getattribute (st_obj cars_state) ''title'' = Inr (PStr ''Cars'')"
    and partial: "isFullObject E1 (st_obj cars_state) = Inr False"
    and cls: "\<not> is_session_or_history (py_class (st_obj cars_state))"
    and auto: "object_getattribute (st_obj cars_state) ''_autoReload'' = Inr (PBool True)"
              "PBool True \<noteq> PBool False"
    and dk: "object_getattribute (st_obj cars_state) ''_details_key'' = Inr (PStr cars_details_key)"
    and key: "object_getattribute (st_obj cars_state) ''key'' = Inr (PStr ''/library/metadata/1'')"
    by (simp_all add: st cars_attrs cars_partial cars_class)
  have K: "py_or (PStr cars_details_key) (PStr ''/library/metadata/1'') = PStr cars_details_key"
    by (simp add: py_or_def cars_key_truthy)
  from getattribute_empty_list [OF public_names(3) u(1) public_names(4) roles partial cls auto dk key]
  have a: "getattribute E1 ''roles'' cars_state = reload_and_read E1 ''roles'' cars_state"
    and b0: "st_requests (snd (getattribute E1 ''roles'' cars_state)) =
       [] @ [\<lparr>req_key = PStr cars_details_key, req_headers = [], req_params = PNone\<rparr>]"
    unfolding K st by blast+
  from b0 have b: "st_requests (snd (getattribute E1 ''roles'' cars_state)) =
       [\<lparr>req_key = PStr cars_details_key, req_headers = [], req_params = PNone\<rparr>]"
    by simp
  from getattribute_empty_list [OF public_names(5) u(2) public_names(6) title partial cls auto dk key]
  have c: "getattribute E1 ''title'' cars_state = (Inr (PStr ''Cars''), cars_state)"
    by blast
  show ?thesis using a b c by blast
qed

section \<open>Merging containers (claim C8)\<close>

text \<open>
  Claim C8. \<open>MediaContainer.extend\<close>, given another container (an object distinct from the
  receiver) where both have their three counters set by the loader (\<open>size\<close> and \<open>offset\<close>
  each \<open>None\<close> or an integer), returns normally; the receiver then holds its own items
  followed by the other's; its \<open>size\<close> is its old size, or its old number of items when
  the size was \<open>None\<close>, plus the other's size, or the other's number of items when that
  size is \<open>None\<close>; its \<open>offset\<close> is the minimum of the two offsets when neither is \<open>None\<close>
  and otherwise the one that is not \<open>None\<close> (\<open>None\<close> when both are); its \<open>totalSize\<close> is
  the other's unless that is \<open>None\<close>; and each of the eight provenance fields keeps the
  receiver's value when the receiver has the field set to something other than \<open>None\<close>,
  and otherwise takes the other container's value when the other container has the
  field at all.
\<close>

theorem extend_merges_containers:
  assumes "object_getattribute (c_obj self) ''size'' = Inr (opt_int ssz)"
      and "object_getattribute (c_obj self) ''offset'' = Inr (opt_int soff)"
      and "object_getattribute (c_obj self) ''totalSize'' = Inr sts"
      and "object_getattribute (c_obj other) ''size'' = Inr (opt_int osz)"
      and "object_getattribute (c_obj other) ''offset'' = Inr (opt_int ooff)"
      and "object_getattribute (c_obj other) ''totalSize'' = Inr ots"
  shows "\<exists>r. extend self (Container other) = Inr r
           \<and> c_items r = c_items self @ c_items other
           \<and> object_getattribute (c_obj r) ''size'' =
               Inr (PInt ((case ssz of Some n \<Rightarrow> n | None \<Rightarrow> int (length (c_items self)))
                        + (case osz of Some n \<Rightarrow> n | None \<Rightarrow> int (length (c_items other)))))
           \<and> object_getattribute (c_obj r) ''offset'' =
               Inr (opt_int (case soff of None \<Rightarrow> ooff
                             | Some a \<Rightarrow> (case ooff of None \<Rightarrow> Some a | Some b \<Rightarrow> Some (min a b))))
           \<and> object_getattribute (c_obj r) ''totalSize'' = Inr (if ots \<noteq> PNone then ots else sts)
           \<and> (\<forall>k \<in> set provenance_keys. object_getattribute (c_obj r) k =
                 (if isl (object_getattribute (c_obj self) k) \<or> object_getattribute (c_obj self) k = Inr PNone
                  then (if isl (object_getattribute (c_obj other) k)
                        then object_getattribute (c_obj self) k
                        else object_getattribute (c_obj other) k)
                  else object_getattribute (c_obj self) k))"
  using assms by (rule extend_Container)

text \<open>
  The theorem at two containers built by \<open>MediaContainer.__init__\<close>: one item at offset 20
  with no size, merged with two items at offset 0 of size 2 and total size 25.
\<close>

theorem extend_merges_containers_witness:
  "\<exists>r. extend shelf_a (Container shelf_b) = Inr r
     \<and> c_items r = [cars, trailer, cars]
     \<and> object_getattribute (c_obj r) ''size'' = Inr (PInt 3)
     \<and> object_getattribute (c_obj r) ''offset'' = Inr (PInt 0)
     \<and> object_getattribute (c_obj r) ''totalSize'' = Inr (PInt 25)
     \<and> object_getattribute (c_obj r) ''identifier'' = Inr (PStr ''com.plexapp.plugins.library'')
     \<and> object_getattribute (c_obj r) ''librarySectionID'' = Inr (PInt 1)"
proof -
  note th = extend_merges_containers [OF shelf_counters]
  from th obtain r where r: "extend shelf_a (Container shelf_b) = Inr r"
      "c_items r = c_items shelf_a @ c_items shelf_b"
      "object_getattribute (c_obj r) ''size'' = Inr (PInt ((case None of Some n \<Rightarrow> n | None \<Rightarrow> int (length (c_items shelf_a)))
                        + (case Some 2 of Some n \<Rightarrow> n | None \<Rightarrow> int (length (c_items shelf_b)))))"
      "object_getattribute (c_obj r) ''offset'' =
               Inr (opt_int (case Some 20 of None \<Rightarrow> Some 0
                             | Some a \<Rightarrow> (case Some (0::int) of None \<Rightarrow> Some a | Some b \<Rightarrow> Some (min a b))))"
      "object_getattribute (c_obj r) ''totalSize'' = Inr (if PInt 25 \<noteq> PNone then PInt 25 else PNone)"
      and prov: "\<forall>k \<in> set provenance_keys. object_getattribute (c_obj r) k =
                 (if isl (object_getattribute (c_obj shelf_a) k) \<or> object_getattribute (c_obj shelf_a) k = Inr PNone
                  then (if isl (object_getattribute (c_obj shelf_b) k)
                        then object_getattribute (c_obj shelf_a) k
                        else object_getattribute (c_obj shelf_b) k)
                  else object_getattribute (c_obj shelf_a) k)"
    by blast
  have k1: "''identifier'' \<in> set provenance_keys" and k2: "''librarySectionID'' \<in> set provenance_keys"
    by (simp_all add: provenance_keys_def)
  have "object_getattribute (c_obj r) ''identifier'' = Inr (PStr ''com.plexapp.plugins.library'')"
    using prov [rule_format, OF k1] by (simp add: shelf_provenance)
  moreover have "object_getattribute (c_obj r) ''librarySectionID'' = Inr (PInt 1)"
    using prov [rule_format, OF k2] by (simp add: shelf_provenance)
  ultimately show ?thesis
    using r by (simp add: shelf_provenance opt_int_def)
qed

section \<open>The editing protocol (claim C9)\<close>

text \<open>
  Claim C9. Take an object whose \<open>_edits\<close> is \<open>None\<close>, as \<open>__init__\<close> leaves it, of a class
  whose loader does not assign \<open>_edits\<close>, and a run \<open>kws\<close> of keyword dictionaries. Then
  \<open>saveEdits()\<close> raises \<open>BadRequest\<close> and changes nothing, so the edit sink is not called.
  After \<open>batchEdits()\<close>, the \<open>_edit\<close> calls with \<open>kws\<close> all return, and leave the object with
  \<open>_edits\<close> holding \<open>acc\<close>, the dictionaries of \<open>kws\<close> merged in order (a later value for a
  field replaces an earlier one), with the transport and the edit sink untouched.
  \<open>saveEdits()\<close> on that state is exactly the immediate \<open>_edit(**acc)\<close> on the object
  outside batch mode: it leaves \<open>_edits\<close> at \<open>None\<close>, calls the edit sink at most once, and
  when it returns it has called the sink exactly once, with \<open>acc\<close>, to which the default
  \<open>type\<close> is added when \<open>acc\<close> has none.
\<close>

theorem batch_edit_protocol:
  assumes init: "py_dict (st_obj st) ''_edits'' = Some PNone"
      and loader: "\<forall>d. ''_edits'' \<notin> fst ` set (loadData (py_class (st_obj st)) d)"
      and cached: "''_edits'' \<notin> set (cached_data_properties (py_class (st_obj st)))"
      and kwargs: "\<forall>kw \<in> set kws. distinct (map fst kw)"
      and acc: "acc = fold (\<lambda>kw d. dict_update d kw) kws []"
      and pending: "pending = st\<lparr>st_obj := (st_obj st)\<lparr>py_dict := (py_dict (st_obj st))(''_edits'' \<mapsto> PDict acc)\<rparr>\<rparr>"
  shows "saveEdits E st = (Inl BadRequest, st)
       \<and> edits E kws (batchEdits st) = (Inr (), pending)
       \<and> st_edits pending = st_edits st \<and> st_requests pending = st_requests st
       \<and> map_of acc = fold (\<lambda>kw m. m ++ map_of kw) kws Map.empty
       \<and> saveEdits E pending = edit E acc st
       \<and> py_dict (st_obj (snd (saveEdits E pending))) ''_edits'' = Some PNone
       \<and> (st_edits (snd (saveEdits E pending)) = st_edits st
          \<or> (\<exists>sec ty. st_edits (snd (saveEdits E pending)) =
                st_edits st @ [(sec, if ''type'' \<in> fst ` set acc then acc else AList.update ''type'' ty acc)]))
       \<and> (fst (saveEdits E pending) = Inr () \<longrightarrow>
            (\<exists>sec ty. st_edits (snd (saveEdits E pending)) =
                st_edits st @ [(sec, if ''type'' \<in> fst ` set acc then acc else AList.update ''type'' ty acc)]))"
proof -
  have og: "object_getattribute (st_obj st) ''_edits'' = Inr PNone"
    using init by (rule object_getattribute_dict)
  have a: "saveEdits E st = (Inl BadRequest, st)"
    using og by (simp add: saveEdits_def)
  have b0: "py_dict (st_obj (batchEdits st)) ''_edits'' = Some (PDict [])"
    by (simp add: batchEdits_def py_dict_setattr_stored)
  have b1: "(py_dict (setattr (st_obj st) ''_edits'' (PDict [])))(''_edits'' \<mapsto> PDict acc)
              = (py_dict (st_obj st))(''_edits'' \<mapsto> PDict acc)"
    by (simp add: setattr_def Let_def)
  have b2: "setattr (st_obj st) ''_edits'' (PDict []) \<lparr>py_dict := (py_dict (st_obj st))(''_edits'' \<mapsto> PDict acc)\<rparr>
              = (st_obj st)\<lparr>py_dict := (py_dict (st_obj st))(''_edits'' \<mapsto> PDict acc)\<rparr>"
    by (simp add: setattr_def Let_def)
  have b: "edits E kws (batchEdits st) = (Inr (), pending)"
    using edits_batch [OF b0, of E kws] b1 b2 by (simp add: acc pending batchEdits_def)
  have c: "map_of acc = fold (\<lambda>kw m. m ++ map_of kw) kws Map.empty"
    using map_of_fold_dict_update [OF kwargs, of "[]"] by (simp add: acc)
  have d0: "py_dict (st_obj pending) ''_edits'' = Some (PDict acc)" by (simp add: pending)
  have d1: "setattr (st_obj pending) ''_edits'' PNone = st_obj st"
    using init by (simp add: pending setattr_def Let_def fun_upd_idem)
  have d: "saveEdits E pending = edit E acc st"
    using object_getattribute_dict [OF d0] d1 by (simp add: saveEdits_def) (simp add: pending)
  show ?thesis
    unfolding d using a b c edit_immediate [OF init loader cached, of E acc]
    by (simp add: pending)
qed

text \<open>
  The theorem at the movie of the listing, with two edits: the save reloads the movie to
  learn its section and calls the sink once with the three fields and the type.
\<close>

theorem batch_edit_protocol_witness:
  "saveEdits E1 cars_state = (Inl BadRequest, cars_state)
   \<and> edits E1 [[(''title.value'', PStr ''Cars 2'')], [(''summary.value'', PStr ''x''), (''title.locked'', PInt 1)]]
        (batchEdits cars_state)
       = (Inr (), cars_state\<lparr>st_obj := cars\<lparr>py_dict := (py_dict cars)(''_edits'' \<mapsto>
            PDict [(''title.value'', PStr ''Cars 2''), (''summary.value'', PStr ''x''), (''title.locked'', PInt 1)])\<rparr>\<rparr>)
   \<and> fst (saveEdits E1 (cars_state\<lparr>st_obj := cars\<lparr>py_dict := (py_dict cars)(''_edits'' \<mapsto>
            PDict [(''title.value'', PStr ''Cars 2''), (''summary.value'', PStr ''x''), (''title.locked'', PInt 1)])\<rparr>\<rparr>)) = Inr ()
   \<and> (\<exists>sec ty. st_edits (snd (saveEdits E1 (cars_state\<lparr>st_obj := cars\<lparr>py_dict := (py_dict cars)(''_edits'' \<mapsto>
            PDict [(''title.value'', PStr ''Cars 2''), (''summary.value'', PStr ''x''), (''title.locked'', PInt 1)])\<rparr>\<rparr>))) =
          [(sec, [(''title.value'', PStr ''Cars 2''), (''summary.value'', PStr ''x''), (''title.locked'', PInt 1), (''type'', ty)])])
   \<and> py_dict (st_obj (snd (saveEdits E1 (cars_state\<lparr>st_obj := cars\<lparr>py_dict := (py_dict cars)(''_edits'' \<mapsto>
            PDict [(''title.value'', PStr ''Cars 2''), (''summary.value'', PStr ''x''), (''title.locked'', PInt 1)])\<rparr>\<rparr>)))) ''_edits'' = Some PNone"
proof -
  let ?kws = "[[(''title.value'', PStr ''Cars 2'')], [(''summary.value'', PStr ''x''), (''title.locked'', PInt 1)]]"
  let ?acc = "[(''title.value'', PStr ''Cars 2''), (''summary.value'', PStr ''x''), (''title.locked'', PInt 1)]"
  let ?pending = "cars_state\<lparr>st_obj := cars\<lparr>py_dict := (py_dict cars)(''_edits'' \<mapsto> PDict ?acc)\<rparr>\<rparr>"
  have init: "py_dict (st_obj cars_state) ''_edits'' = Some PNone"
    by (simp add: cars_state_fields cars_def)
  have loader: "\<forall>d. ''_edits'' \<notin> fst ` set (loadData (py_class (st_obj cars_state)) d)"
    by (simp add: cars_state_fields cars_class cars_details_loads)
  have cached: "''_edits'' \<notin> set (cached_data_properties (py_class (st_obj cars_state)))"
    by (simp add: cars_state_fields cars_class)
  have kwargs: "\<forall>kw \<in> set ?kws. distinct (map fst kw)" by simp
  have acc: "?acc = fold (\<lambda>kw d. dict_update d kw) ?kws []"
    by (simp add: dict_update_def)
  have pending: "?pending = cars_state\<lparr>st_obj := (st_obj cars_state)\<lparr>py_dict := (py_dict (st_obj cars_state))(''_edits'' \<mapsto> PDict ?acc)\<rparr>\<rparr>"
    by (simp add: cars_state_fields)
  note th = batch_edit_protocol [OF init loader cached kwargs acc pending, of E1]
  have ok: "fst (edit E1 ?acc cars_state) = Inr ()"
  proof -
    obtain r2 st2 where g: "getattribute E1 ''librarySectionID'' cars_state = (r2, st2)"
      by (cases "getattribute E1 ''librarySectionID'' cars_state")
    have r2: "r2 = Inr (PInt 1)" using cars_section g by simp
    have ty: "getattribute E1 ''TYPE'' cars_state = (Inr (PStr ''movie''), cars_state)"
      by (simp add: getattribute_def cars_state_fields cars_def object_getattribute_def Movie_def
          DONT_RELOAD_FOR_KEYS_def E1_def E0_def startswith_def PlexObjectMeta_new_def)
    have w: "with_type E1 ?acc cars_state = (Inr (?acc @ [(''type'', PStr ''movie'')]), cars_state)"
      using ty by (simp add: with_type_def E1_def E0_def)
    show ?thesis
      using w g r2 cars_attrs(8)
      by (simp add: edit_def cars_state_fields E1_def E0_def Let_def)
  qed
  note a = th [THEN conjunct1]
  note b = th [THEN conjunct2, THEN conjunct1]
  note d = th [THEN conjunct2, THEN conjunct2, THEN conjunct2, THEN conjunct2, THEN conjunct2, THEN conjunct1]
  note e = th [THEN conjunct2, THEN conjunct2, THEN conjunct2, THEN conjunct2, THEN conjunct2, THEN conjunct2,
      THEN conjunct1]
  note f = th [THEN conjunct2, THEN conjunct2, THEN conjunct2, THEN conjunct2, THEN conjunct2, THEN conjunct2,
      THEN conjunct2, THEN conjunct2]
  have ok': "fst (saveEdits E1 ?pending) = Inr ()"
    by (simp only: d ok)
  from f [THEN mp, OF ok'] obtain sec ty where
    "st_edits (snd (saveEdits E1 ?pending)) =
       st_edits cars_state @ [(sec, if ''type'' \<in> fst ` set ?acc then ?acc else AList.update ''type'' ty ?acc)]"
    by blast
  then have "st_edits (snd (saveEdits E1 ?pending)) = [(sec, ?acc @ [(''type'', ty)])]"
    by (simp add: cars_state_fields)
  then have ex: "\<exists>sec ty. st_edits (snd (saveEdits E1 ?pending)) = [(sec, ?acc @ [(''type'', ty)])]"
    by blast
  from a b ok' ex e show ?thesis
    by simp
qed

section \<open>Pagination (claim C7)\<close>



end
